theory Spec2Isabelle
  imports Complex_Main
begin

section \<open>Heroic to Lutris game importer: a shallow embedding of \<^verbatim>\<open>src/main.py\<close>\<close>

text \<open>
  The script reads Heroic's sideload library (a JSON document), and for every installed
  game writes a YAML configuration file into the Lutris configuration directory and
  inserts a row into the \<^verbatim>\<open>games\<close> table of the Lutris database.

  The embedding makes the script's world explicit: the parsed JSON documents, the files in
  the configuration directory, the rows of the table, the rows inserted in the open
  transaction, and the lines printed. What the operating system and SQLite decide (the
  clock, whether a file can be opened, whether an insert is accepted) is an input of the
  model, one record per loop iteration.
\<close>

subsection \<open>Python strings\<close>

text \<open>
  A Python \<^verbatim>\<open>str\<close> is a sequence of Unicode code points, so a string is a list of
  code points (natural numbers); \<open>ustr\<close> embeds an ASCII literal. The code points the
  script names are 32 (space), 38 (\<^verbatim>\<open>&\<close>), 39 (apostrophe), 45 (hyphen),
  46 (full stop), 47 (slash), 58 (colon), 174 (registered sign) and 8482 (trade mark sign).
\<close>

type_synonym ustring = "nat list"

definition ustr :: "string \<Rightarrow> ustring" where
  "ustr s = map of_char s"

text \<open>
  \<^verbatim>\<open>str.replace(old, new)\<close>: every non-overlapping occurrence of \<open>old\<close>, found from
  the left, is replaced by \<open>new\<close>; with an empty \<open>old\<close>, \<open>new\<close> is put before every
  character and at the end.
\<close>

function str_replace_from :: "ustring \<Rightarrow> ustring \<Rightarrow> ustring \<Rightarrow> ustring" where
  "str_replace_from old new [] = []"
| "str_replace_from old new (c # cs) =
     (if old \<noteq> [] \<and> take (length old) (c # cs) = old
      then new @ str_replace_from old new (drop (length old) (c # cs))
      else c # str_replace_from old new cs)"
  by pat_completeness auto
termination
  by (relation "measure (\<lambda>(old, new, s). length s)") auto

definition str_replace :: "ustring \<Rightarrow> ustring \<Rightarrow> ustring \<Rightarrow> ustring" where
  "str_replace old new s =
     (if old = [] then new @ concat (map (\<lambda>c. c # new) s)
      else str_replace_from old new s)"

text \<open>
  \<^verbatim>\<open>str.lower()\<close> belongs to Python, not to the script. On a string of ASCII characters,
  registered signs and trade mark signs it maps \<^verbatim>\<open>A\<close>..\<^verbatim>\<open>Z\<close> to
  \<^verbatim>\<open>a\<close>..\<^verbatim>\<open>z\<close> and leaves the rest (the two signs have no case mapping). On any
  other string the Unicode case tables decide; they are the parameter \<open>ul\<close>.
\<close>

definition lower_ascii :: "nat \<Rightarrow> nat" where
  "lower_ascii c = (if 65 \<le> c \<and> c \<le> 90 then c + 32 else c)"

definition plain_char :: "nat \<Rightarrow> bool" where
  "plain_char c \<longleftrightarrow> c < 128 \<or> c = 174 \<or> c = 8482"

definition str_lower :: "(ustring \<Rightarrow> ustring) \<Rightarrow> ustring \<Rightarrow> ustring" where
  "str_lower ul s = (if list_all plain_char s then map lower_ascii s else ul s)"

text \<open>\<^verbatim>\<open>str(n)\<close> for an integer: decimal digits, with a minus sign when negative.\<close>

fun str_of_nat :: "nat \<Rightarrow> ustring" where
  "str_of_nat n = (if n < 10 then [48 + n] else str_of_nat (n div 10) @ [48 + n mod 10])"

declare str_of_nat.simps [simp del]

definition str_of_int :: "int \<Rightarrow> ustring" where
  "str_of_int i = (if i < 0 then 45 # str_of_nat (nat (- i)) else str_of_nat (nat i))"

subsection \<open>\<^verbatim>\<open>create_slug\<close>\<close>

text \<open>
  \<^verbatim>\<open>
  def create_slug(title):
      return title.lower().replace(' ', '-').replace(':', '').replace("'", "")
          .replace('\<registered>', '').replace('\<trademark>', '').replace('.', '').replace('&', 'and')
  \<close>
  (the fourth and fifth patterns are the registered sign and the trade mark sign).
\<close>

definition create_slug :: "(ustring \<Rightarrow> ustring) \<Rightarrow> ustring \<Rightarrow> ustring" where
  "create_slug ul title =
     str_replace (ustr ''&'') (ustr ''and'')
       (str_replace (ustr ''.'') []
         (str_replace [8482] []
           (str_replace [174] []
             (str_replace [39] []
               (str_replace (ustr '':'') []
                 (str_replace (ustr '' '') (ustr ''-'') (str_lower ul title)))))))"

text \<open>
  The identifier derivation in the specification's words: lowercase the title, replace
  spaces with hyphens, strip the fixed set of characters, replace \<^verbatim>\<open>&\<close> with
  \<^verbatim>\<open>and\<close>. Each step is written as one pass over the characters.
\<close>

definition slug_spec :: "(ustring \<Rightarrow> ustring) \<Rightarrow> ustring \<Rightarrow> ustring" where
  "slug_spec ul title =
     concat (map (\<lambda>c. if c = 38 then ustr ''and'' else [c])
       (filter (\<lambda>c. c \<notin> {58, 39, 174, 8482, 46})
         (map (\<lambda>c. if c = 32 then 45 else c) (str_lower ul title))))"

subsection \<open>Parsed JSON and Python values\<close>

text \<open>
  What \<^verbatim>\<open>json.load\<close> returns: \<^verbatim>\<open>None\<close>, a bool, an int, a float, a string, a
  list, or a dict with string keys (an association list with distinct keys). The same
  type stands for the Python values the script passes on to YAML and to SQLite.
\<close>

datatype json =
    JNull
  | JBool bool
  | JInt int
  | JFloat real
  | JStr ustring
  | JArr "json list"
  | JObj "(ustring \<times> json) list"

text \<open>The exceptions the script can meet; \<open>SqliteError\<close> stands for \<^verbatim>\<open>sqlite3.Error\<close>
  and its subclasses.\<close>

datatype exn =
    AttributeError
  | TypeError
  | OverflowError
  | OSError
  | UnicodeEncodeError
  | SqliteError

definition and_then :: "exn + 'a \<Rightarrow> ('a \<Rightarrow> exn + 'b) \<Rightarrow> exn + 'b" where
  "and_then m f = (case m of Inl e \<Rightarrow> Inl e | Inr x \<Rightarrow> f x)"

text \<open>Truth value of a Python value, as \<^verbatim>\<open>not x\<close> and \<^verbatim>\<open>x or y\<close> test it.\<close>

fun truthy :: "json \<Rightarrow> bool" where
  "truthy JNull = False"
| "truthy (JBool b) = b"
| "truthy (JInt i) = (i \<noteq> 0)"
| "truthy (JFloat r) = (r \<noteq> 0)"
| "truthy (JStr s) = (s \<noteq> [])"
| "truthy (JArr xs) = (xs \<noteq> [])"
| "truthy (JObj kvs) = (kvs \<noteq> [])"

text \<open>
  A string that \<^verbatim>\<open>json.load\<close> built from the escape of one half of a surrogate pair
  holds a lone surrogate (a code point from D800 to DFFF). Such a string cannot be encoded as
  UTF-8: printing it and binding it as an SQL parameter raise
  \<^verbatim>\<open>UnicodeEncodeError\<close>. Inside an f-string only a string is written as it is; any
  other value is written by its \<^verbatim>\<open>repr\<close>, which escapes surrogates.
\<close>

definition surrogate :: "nat \<Rightarrow> bool" where
  "surrogate c \<longleftrightarrow> 55296 \<le> c \<and> c \<le> 57343"

fun printable :: "json \<Rightarrow> bool" where
  "printable (JStr s) = (\<not> list_ex surrogate s)"
| "printable _ = True"

text \<open>\<^verbatim>\<open>d.get(key, default)\<close> on a dict.\<close>

definition dict_get :: "(ustring \<times> json) list \<Rightarrow> ustring \<Rightarrow> json \<Rightarrow> json" where
  "dict_get kvs k d = (case map_of kvs k of None \<Rightarrow> d | Some v \<Rightarrow> v)"

text \<open>\<^verbatim>\<open>x.get(key, default)\<close> on any value: only a dict has the method.\<close>

fun py_get :: "json \<Rightarrow> ustring \<Rightarrow> json \<Rightarrow> exn + json" where
  "py_get (JObj kvs) k d = Inr (dict_get kvs k d)"
| "py_get _ k d = Inl AttributeError"

text \<open>
  The same with a key that is itself a parsed value: a list or a dict is unhashable, and
  a key that is not a string is never a key of a parsed JSON object.
\<close>

fun py_get_key :: "json \<Rightarrow> json \<Rightarrow> json \<Rightarrow> exn + json" where
  "py_get_key (JObj kvs) (JStr k) d = Inr (dict_get kvs k d)"
| "py_get_key (JObj kvs) (JArr xs) d = Inl TypeError"
| "py_get_key (JObj kvs) (JObj ks) d = Inl TypeError"
| "py_get_key (JObj kvs) k d = Inr d"
| "py_get_key _ k d = Inl AttributeError"

text \<open>\<^verbatim>\<open>for x in v\<close>: a list gives its elements, a string its characters, a dict its
  keys; nothing else can be iterated.\<close>

fun py_iter :: "json \<Rightarrow> exn + json list" where
  "py_iter (JArr xs) = Inr xs"
| "py_iter (JStr s) = Inr (map (\<lambda>c. JStr [c]) s)"
| "py_iter (JObj kvs) = Inr (map (\<lambda>kv. JStr (fst kv)) kvs)"
| "py_iter _ = Inl TypeError"

text \<open>\<^verbatim>\<open>create_slug\<close> called on a parsed value: only a string has \<^verbatim>\<open>lower\<close>.\<close>

fun create_slug_of :: "(ustring \<Rightarrow> ustring) \<Rightarrow> json \<Rightarrow> exn + ustring" where
  "create_slug_of ul (JStr title) = Inr (create_slug ul title)"
| "create_slug_of ul _ = Inl AttributeError"

text \<open>
  \<^verbatim>\<open>os.path.dirname\<close> of the POSIX path module (Lutris and Heroic's sideload library are
  Linux programs):
  \<^verbatim>\<open>
  i = p.rfind('/') + 1
  head = p[:i]
  if head and head != '/' * len(head):
      head = head.rstrip('/')
  return head
  \<close>
  A value that is not a string is refused with \<^verbatim>\<open>TypeError\<close>.
\<close>

definition str_rfind :: "ustring \<Rightarrow> nat \<Rightarrow> int" where
  "str_rfind p c =
     (if c \<in> set p then int (length p) - 1 - int (length (takeWhile (\<lambda>x. x \<noteq> c) (rev p)))
      else - 1)"

definition str_rstrip :: "ustring \<Rightarrow> nat \<Rightarrow> ustring" where
  "str_rstrip s c = rev (dropWhile (\<lambda>x. x = c) (rev s))"

definition dirname :: "ustring \<Rightarrow> ustring" where
  "dirname p =
     (let i = str_rfind p 47 + 1;
          head = take (nat i) p
      in if head \<noteq> [] \<and> head \<noteq> replicate (length head) 47 then str_rstrip head 47 else head)"

fun dirname_of :: "json \<Rightarrow> exn + json" where
  "dirname_of (JStr p) = Inr (JStr (dirname p))"
| "dirname_of _ = Inl TypeError"

subsection \<open>Files, rows and printed lines\<close>

text \<open>A file the script reads: missing, present but failing to open or to parse, or
  parsed.\<close>

datatype file_status = Absent | Unreadable | Parsed json

text \<open>
  The option file of a game is looked up by a name the library gives
  (\<^verbatim>\<open>GamesConfig/<app_name>.json\<close>), and \<^verbatim>\<open>Path.exists\<close> raises \<^verbatim>\<open>OSError\<close> when
  the operating system refuses the name (it is too long, or a directory cannot be
  searched). The paths of lines 33 to 35 and 73 to 75 are fixed; their lookups are taken
  to return.
\<close>

datatype config_lookup = StatRaises | Stat file_status

text \<open>The dict the script dumps as YAML:
  \<^verbatim>\<open>{'game': {'exe': ..., 'prefix': ...}, 'wine': {'dxvk': ..., 'esync': ..., 'fsync': ...}}\<close>.\<close>

record lutris_game_config =
  game_exe :: json
  game_prefix :: json
  wine_dxvk :: json
  wine_esync :: json
  wine_fsync :: json

text \<open>A file in a Lutris configuration directory: a complete dump, or what is left when
  the file was opened for writing and the dump failed.\<close>

datatype yaml_file = Dumped lutris_game_config | Truncated

text \<open>A row of the \<^verbatim>\<open>games\<close> table, by the columns the \<^verbatim>\<open>INSERT\<close> names.\<close>

record game_row =
  row_name :: json
  row_slug :: json
  row_runner :: json
  row_executable :: json
  row_directory :: json
  row_installed :: json
  row_configpath :: json

text \<open>
  A path as \<^verbatim>\<open>pathlib\<close> holds it: where it starts (one of the three candidate
  directories of \<^verbatim>\<open>find_lutris_config_dir\<close>, by index, or the root) and its
  components. Two paths that differ can still name one file (through \<^verbatim>\<open>..\<close> or a
  symbolic link); nothing below relies on two paths naming different files.
\<close>

datatype anchor = ConfigDir nat | Root

type_synonym path = "anchor \<times> ustring list"

text \<open>The lines the script prints, one constructor per \<^verbatim>\<open>print\<close> (or group of
  prints of fixed text that always come together).\<close>

datatype msg =
    Banner
  | Prompt
  | Cancelled
  | Done
  | CreatedDir
  | ErrConfigDir
  | ErrRequiredNotFound
  | MissingLibrary
  | MissingDb
  | MissingConfigDir
  | ErrLibraryUnreadable
  | SkipNoExecutable json
  | SkipSlugExists json ustring
  | WarnConfig json
  | ErrYaml json
  | Added json
  | AddedExecutable json
  | AddedPrefix json
  | AddedConfig path
  | ErrDatabase json
  | Summary nat nat
  | Traceback exn

text \<open>What the loop changes: the files of the configuration directories, the rows inserted
  on the cursor and not yet committed, the two counters and the printed lines.\<close>

record run_state =
  yaml_files :: "path \<rightharpoonup> yaml_file"
  pending :: "game_row list"
  added_games :: nat
  skipped_games :: nat
  stdout :: "msg list"

text \<open>What the outside decides in one iteration: the clock, whether the YAML file can be
  written, and whether SQLite accepts the insert once its parameters are bound.\<close>

datatype write_outcome = WriteOk | OpenFails | DumpFails

record game_env =
  now :: int
  yaml_write :: write_outcome
  db_accepts :: bool

text \<open>
  \<^verbatim>\<open>print\<close> of a line into which the given values are formatted: the line is printed,
  or \<^verbatim>\<open>UnicodeEncodeError\<close> is raised and nothing is printed. Standard output is taken
  to be a UTF-8 stream with strict error handling, as on a Linux desktop.
\<close>

definition py_print :: "json list \<Rightarrow> msg \<Rightarrow> run_state \<Rightarrow> run_state \<times> exn option" where
  "py_print values line st =
     (if list_all printable values then (st\<lparr>stdout := stdout st @ [line]\<rparr>, None)
      else (st, Some UnicodeEncodeError))"

text \<open>Sequencing of statements: what follows runs only when nothing was raised.\<close>

definition and_next ::
    "run_state \<times> exn option \<Rightarrow> (run_state \<Rightarrow> run_state \<times> exn option) \<Rightarrow>
     run_state \<times> exn option" where
  "and_next r f = (case r of (st, Some x) \<Rightarrow> (st, Some x) | (st, None) \<Rightarrow> f st)"

subsection \<open>\<^verbatim>\<open>get_heroic_game_config\<close>\<close>

text \<open>The body of the \<^verbatim>\<open>try\<close> once the file is parsed (lines 58 to 65).\<close>

definition read_game_config :: "json \<Rightarrow> json \<Rightarrow> exn + (ustring \<times> json) list" where
  "read_game_config app_name config_data =
     and_then (py_get_key config_data app_name (JObj [])) (\<lambda>game_config.
     and_then (py_get game_config (ustr ''winePrefix'') JNull) (\<lambda>wine_prefix.
     and_then (py_get game_config (ustr ''wineVersion'') (JObj [])) (\<lambda>wine_version.
     and_then (py_get wine_version (ustr ''bin'') JNull) (\<lambda>bin.
     and_then (py_get game_config (ustr ''autoInstallDxvk'') (JBool False)) (\<lambda>dxvk.
     and_then (py_get game_config (ustr ''enableEsync'') (JBool False)) (\<lambda>esync.
     and_then (py_get game_config (ustr ''enableFsync'') (JBool False)) (\<lambda>fsync.
       Inr [(ustr ''wine_prefix'', wine_prefix),
            (ustr ''wine_version'', bin),
            (ustr ''dxvk'', dxvk),
            (ustr ''esync'', esync),
            (ustr ''fsync'', fsync)])))))))"

text \<open>
  The function returns the options, and prints a warning when anything in the
  \<^verbatim>\<open>try\<close> raised; the second component of its result is what it printed. The
  argument \<open>config_file\<close> is what the lookup of \<^verbatim>\<open>GamesConfig/<app_name>.json\<close>
  gives. The lookup of line 54 stands outside the \<^verbatim>\<open>try\<close>, and the warning is
  printed inside the handler, so an exception of either leaves the function.
\<close>

definition warn_config :: "json \<Rightarrow> exn + (ustring \<times> json) list \<times> msg list" where
  "warn_config app_name =
     (if printable app_name then Inr ([], [WarnConfig app_name]) else Inl UnicodeEncodeError)"

definition get_heroic_game_config ::
    "json \<Rightarrow> config_lookup \<Rightarrow> exn + (ustring \<times> json) list \<times> msg list" where
  "get_heroic_game_config app_name config_file =
     (case config_file of
        StatRaises \<Rightarrow> Inl OSError
      | Stat Absent \<Rightarrow> Inr ([], [])
      | Stat Unreadable \<Rightarrow> warn_config app_name
      | Stat (Parsed config_data) \<Rightarrow>
          (case read_game_config app_name config_data of
             Inl e \<Rightarrow> warn_config app_name
           | Inr options \<Rightarrow> Inr (options, [])))"

subsection \<open>The loop of \<^verbatim>\<open>add_heroic_games_to_lutris\<close>\<close>

text \<open>
  Lines 102 to 127: what the loop body finds out about an entry before it touches
  anything. Nothing is written in these lines, so they are a function of the entry.
\<close>

datatype entry =
    NotInstalled
  | NoTitle
  | NoExecutable json
  | Candidate json ustring json json json

definition examine_game :: "(ustring \<Rightarrow> ustring) \<Rightarrow> json \<Rightarrow> exn + entry" where
  "examine_game ul game =
     and_then (py_get game (ustr ''is_installed'') (JBool False)) (\<lambda>is_installed.
     if \<not> truthy is_installed then Inr NotInstalled else
     and_then (py_get game (ustr ''title'') JNull) (\<lambda>game_title.
     if \<not> truthy game_title then Inr NoTitle else
     and_then (create_slug_of ul game_title) (\<lambda>game_slug.
     and_then (py_get game (ustr ''install'') (JObj [])) (\<lambda>install_info.
     and_then (py_get install_info (ustr ''executable'') JNull) (\<lambda>executable_path.
     and_then (py_get install_info (ustr ''path'') JNull) (\<lambda>install_dir.
     if \<not> truthy executable_path then Inr (NoExecutable game_title) else
     and_then (if \<not> truthy install_dir then dirname_of executable_path
               else Inr install_dir) (\<lambda>install_dir.
     and_then (py_get game (ustr ''app_name'') JNull) (\<lambda>app_name.
       Inr (Candidate game_title game_slug executable_path install_dir app_name)))))))))"

text \<open>
  \<^verbatim>\<open>cursor.execute("INSERT ...", params)\<close>: the parameters are bound in order. SQLite
  takes \<^verbatim>\<open>None\<close>, ints of 64 bits, floats and strings that UTF-8 can encode; a larger
  int raises \<^verbatim>\<open>OverflowError\<close>, a string with a lone surrogate raises
  \<^verbatim>\<open>UnicodeEncodeError\<close>, a list or a dict raises a \<^verbatim>\<open>sqlite3.Error\<close>. Then the
  database accepts the row or raises a \<^verbatim>\<open>sqlite3.Error\<close> (a locked database, a
  constraint).
\<close>

fun bind_param :: "json \<Rightarrow> exn option" where
  "bind_param (JInt i) = (if - (2 ^ 63) \<le> i \<and> i < 2 ^ 63 then None else Some OverflowError)"
| "bind_param (JStr s) = (if list_ex surrogate s then Some UnicodeEncodeError else None)"
| "bind_param (JArr xs) = Some SqliteError"
| "bind_param (JObj kvs) = Some SqliteError"
| "bind_param _ = None"

fun bind_params :: "json list \<Rightarrow> exn option" where
  "bind_params [] = None"
| "bind_params (v # vs) = (case bind_param v of Some e \<Rightarrow> Some e | None \<Rightarrow> bind_params vs)"

definition execute_insert :: "bool \<Rightarrow> game_row \<Rightarrow> exn option" where
  "execute_insert accepts r =
     (case bind_params [row_name r, row_slug r, row_runner r, row_executable r,
                        row_directory r, row_installed r, row_configpath r] of
        Some e \<Rightarrow> Some e
      | None \<Rightarrow> if accepts then None else Some SqliteError)"

text \<open>
  The values lines 137 to 147 and 160 build: the dict dumped as YAML, the name
  \<^verbatim>\<open>f"{game_slug}-{int(time.time())}"\<close>, the path of the YAML file in the
  configuration directory, and the parameters of the \<^verbatim>\<open>INSERT\<close>.
\<close>

definition lutris_config_of :: "json \<Rightarrow> (ustring \<times> json) list \<Rightarrow> lutris_game_config" where
  "lutris_config_of executable_path heroic_config =
     \<lparr>game_exe = executable_path,
      game_prefix = dict_get heroic_config (ustr ''wine_prefix'') JNull,
      wine_dxvk = dict_get heroic_config (ustr ''dxvk'') (JBool False),
      wine_esync = dict_get heroic_config (ustr ''esync'') (JBool False),
      wine_fsync = dict_get heroic_config (ustr ''fsync'') (JBool False)\<rparr>"

definition config_slug_of :: "ustring \<Rightarrow> int \<Rightarrow> ustring" where
  "config_slug_of game_slug t = game_slug @ ustr ''-'' @ str_of_int t"

text \<open>
  \<^verbatim>\<open>lutris_config_dir / f"{config_slug}.yml"\<close>: the slug keeps every slash of the title.
  A name that starts with a slash is an absolute path and replaces the directory; the name
  is cut at its slashes, and empty components and \<^verbatim>\<open>.\<close> are dropped.
\<close>

fun str_split :: "nat \<Rightarrow> ustring \<Rightarrow> ustring list" where
  "str_split c [] = [[]]"
| "str_split c (x # xs) =
     (if x = c then [] # str_split c xs
      else (case str_split c xs of [] \<Rightarrow> [[x]] | part # parts \<Rightarrow> (x # part) # parts))"

definition path_parts :: "ustring \<Rightarrow> ustring list" where
  "path_parts name = filter (\<lambda>part. part \<noteq> [] \<and> part \<noteq> ustr ''.'') (str_split 47 name)"

definition yaml_path_of :: "nat \<Rightarrow> ustring \<Rightarrow> path" where
  "yaml_path_of lutris_config_dir config_slug =
     (let name = config_slug @ ustr ''.yml''
      in (if take 1 name = [47] then Root else ConfigDir lutris_config_dir, path_parts name))"

definition insert_params :: "json \<Rightarrow> ustring \<Rightarrow> json \<Rightarrow> json \<Rightarrow> ustring \<Rightarrow> game_row" where
  "insert_params game_title game_slug executable_path install_dir config_slug =
     \<lparr>row_name = game_title,
      row_slug = JStr game_slug,
      row_runner = JStr (ustr ''wine''),
      row_executable = executable_path,
      row_directory = install_dir,
      row_installed = JInt 1,
      row_configpath = JStr config_slug\<rparr>"

text \<open>
  Lines 129 to 171, for an entry that passed the checks. The result is the new state and
  the exception that leaves the loop body, if any. Every line that is printed with a value
  of the entry in it can raise \<^verbatim>\<open>UnicodeEncodeError\<close>; none of the handlers of these
  lines catches it. The one exception is the line of a slug that exists already: that slug
  is a text SQLite returned, so neither it nor the title it was made from holds a lone
  surrogate. When the insert raised a \<^verbatim>\<open>sqlite3.Error\<close> the file was just written, so
  the lookup of line 170 returns.
\<close>

definition migrate_game ::
    "(json \<Rightarrow> config_lookup) \<Rightarrow> nat \<Rightarrow> json set \<Rightarrow> game_env \<Rightarrow>
     json \<Rightarrow> ustring \<Rightarrow> json \<Rightarrow> json \<Rightarrow> json \<Rightarrow> run_state \<Rightarrow> run_state \<times> exn option" where
  "migrate_game game_configs lutris_config_dir existing_slugs e
       game_title game_slug executable_path install_dir app_name st =
     (if JStr game_slug \<in> existing_slugs then
        (st\<lparr>stdout := stdout st @ [SkipSlugExists game_title game_slug],
            skipped_games := skipped_games st + 1\<rparr>, None)
      else
        case get_heroic_game_config app_name (game_configs app_name) of
          Inl x \<Rightarrow> (st, Some x)
        | Inr (heroic_config, warnings) \<Rightarrow>
            let wine_prefix = dict_get heroic_config (ustr ''wine_prefix'') JNull;
                lutris_game_config = lutris_config_of executable_path heroic_config;
                config_slug = config_slug_of game_slug (now e);
                yaml_path = yaml_path_of lutris_config_dir config_slug;
                st1 = st\<lparr>stdout := stdout st @ warnings\<rparr>
            in case yaml_write e of
                 OpenFails \<Rightarrow>
                   and_next (py_print [game_title] (ErrYaml game_title) st1) (\<lambda>s.
                     (s\<lparr>skipped_games := skipped_games s + 1\<rparr>, None))
               | DumpFails \<Rightarrow>
                   and_next (py_print [game_title] (ErrYaml game_title)
                               (st1\<lparr>yaml_files := (yaml_files st1)(yaml_path \<mapsto> Truncated)\<rparr>)) (\<lambda>s.
                     (s\<lparr>skipped_games := skipped_games s + 1\<rparr>, None))
               | WriteOk \<Rightarrow>
                   let st2 = st1\<lparr>yaml_files :=
                                   (yaml_files st1)(yaml_path \<mapsto> Dumped lutris_game_config)\<rparr>;
                       r = insert_params game_title game_slug executable_path install_dir
                             config_slug;
                       shown_prefix = (if truthy wine_prefix then wine_prefix
                                       else JStr (ustr ''Not found''))
                   in case execute_insert (db_accepts e) r of
                        None \<Rightarrow>
                          and_next (py_print [game_title] (Added game_title)
                                      (st2\<lparr>pending := pending st2 @ [r]\<rparr>)) (\<lambda>s.
                          and_next (py_print [executable_path]
                                      (AddedExecutable executable_path) s) (\<lambda>s.
                          and_next (py_print [shown_prefix] (AddedPrefix shown_prefix) s) (\<lambda>s.
                          and_next (py_print [JStr game_slug] (AddedConfig yaml_path) s) (\<lambda>s.
                            (s\<lparr>added_games := added_games s + 1\<rparr>, None)))))
                      | Some SqliteError \<Rightarrow>
                          and_next (py_print [game_title] (ErrDatabase game_title) st2) (\<lambda>s.
                            (s\<lparr>skipped_games := skipped_games s + 1,
                               yaml_files :=
                                 (if yaml_path \<in> dom (yaml_files s)
                                  then (yaml_files s)(yaml_path := None)
                                  else yaml_files s)\<rparr>, None))
                      | Some x \<Rightarrow> (st2, Some x))"

text \<open>The loop body.\<close>

definition process_game ::
    "(ustring \<Rightarrow> ustring) \<Rightarrow> (json \<Rightarrow> config_lookup) \<Rightarrow> nat \<Rightarrow> json set \<Rightarrow> game_env \<Rightarrow>
     json \<Rightarrow> run_state \<Rightarrow> run_state \<times> exn option" where
  "process_game ul game_configs lutris_config_dir existing_slugs e game st =
     (case examine_game ul game of
        Inl x \<Rightarrow> (st, Some x)
      | Inr NotInstalled \<Rightarrow> (st, None)
      | Inr NoTitle \<Rightarrow> (st\<lparr>skipped_games := skipped_games st + 1\<rparr>, None)
      | Inr (NoExecutable game_title) \<Rightarrow>
          and_next (py_print [game_title] (SkipNoExecutable game_title) st) (\<lambda>s.
            (s\<lparr>skipped_games := skipped_games s + 1\<rparr>, None))
      | Inr (Candidate game_title game_slug executable_path install_dir app_name) \<Rightarrow>
          migrate_game game_configs lutris_config_dir existing_slugs e
            game_title game_slug executable_path install_dir app_name st)"

text \<open>The loop: iteration \<open>i\<close> meets the outside \<open>env i\<close>; an exception ends it.\<close>

fun process_games ::
    "(ustring \<Rightarrow> ustring) \<Rightarrow> (json \<Rightarrow> config_lookup) \<Rightarrow> nat \<Rightarrow> json set \<Rightarrow>
     (nat \<Rightarrow> game_env) \<Rightarrow> nat \<Rightarrow> json list \<Rightarrow> run_state \<Rightarrow> run_state \<times> exn option" where
  "process_games ul game_configs lutris_config_dir existing_slugs env i [] st = (st, None)"
| "process_games ul game_configs lutris_config_dir existing_slugs env i (game # games) st =
     (case process_game ul game_configs lutris_config_dir existing_slugs (env i) game st of
        (st', Some x) \<Rightarrow> (st', Some x)
      | (st', None) \<Rightarrow>
          process_games ul game_configs lutris_config_dir existing_slugs env (Suc i) games st')"

subsection \<open>The world, \<^verbatim>\<open>find_lutris_config_dir\<close>, \<^verbatim>\<open>add_heroic_games_to_lutris\<close>
  and \<^verbatim>\<open>main\<close>\<close>

datatype db_status = DbMissing | DbBroken | DbTable "game_row list"

text \<open>
  The world of a run: Heroic's library file and per-game option files (by
  \<^verbatim>\<open>app_name\<close>), which of the three candidate directories exist and whether the first
  can be created, the database file (missing, without a readable \<^verbatim>\<open>games\<close> table, or
  the committed rows of the table), the configuration files, the printed lines, and how
  often the database was opened.
\<close>

record world =
  library_json :: file_status
  game_config_json :: "json \<Rightarrow> config_lookup"
  lutris_dirs :: "nat \<Rightarrow> bool"
  mkdir_ok :: bool
  pga_db :: db_status
  dir_files :: "path \<rightharpoonup> yaml_file"
  console :: "msg list"
  db_connects :: nat

definition find_lutris_config_dir :: "world \<Rightarrow> nat option \<times> world" where
  "find_lutris_config_dir w =
     (if lutris_dirs w 0 then (Some 0, w)
      else if lutris_dirs w 1 then (Some 1, w)
      else if lutris_dirs w 2 then (Some 2, w)
      else if mkdir_ok w then
        (Some 0, w\<lparr>lutris_dirs := (lutris_dirs w)(0 := True), console := console w @ [CreatedDir]\<rparr>)
      else (None, w\<lparr>console := console w @ [ErrConfigDir]\<rparr>))"

text \<open>
  Lines 92 to 186: connect (which creates an empty database when the file is missing),
  read the slugs, run the loop, then either commit and print the summary, or print the
  traceback; close the connection in both cases. Closing a connection without a commit
  drops the rows of its open transaction. The commit itself is taken to succeed.
\<close>

definition import_games ::
    "(ustring \<Rightarrow> ustring) \<Rightarrow> (nat \<Rightarrow> game_env) \<Rightarrow> nat \<Rightarrow> json \<Rightarrow> world \<Rightarrow> world" where
  "import_games ul env lutris_config_dir heroic_data w =
     (let w1 = w\<lparr>db_connects := db_connects w + 1\<rparr> in
      case pga_db w1 of
        DbMissing \<Rightarrow> w1\<lparr>pga_db := DbBroken, console := console w1 @ [Traceback SqliteError]\<rparr>
      | DbBroken \<Rightarrow> w1\<lparr>console := console w1 @ [Traceback SqliteError]\<rparr>
      | DbTable rows \<Rightarrow>
          let existing_slugs = set (map row_slug rows);
              st0 = \<lparr>yaml_files = dir_files w1, pending = [], added_games = 0,
                     skipped_games = 0, stdout = console w1\<rparr>;
              (st, raised) =
                (case and_then (py_get heroic_data (ustr ''games'') (JArr [])) py_iter of
                   Inl x \<Rightarrow> (st0, Some x)
                 | Inr games \<Rightarrow>
                     process_games ul (game_config_json w1) lutris_config_dir existing_slugs
                       env 0 games st0)
          in case raised of
               None \<Rightarrow>
                 w1\<lparr>pga_db := DbTable (rows @ pending st),
                    dir_files := yaml_files st,
                    console := stdout st @ [Summary (added_games st) (skipped_games st)]\<rparr>
             | Some x \<Rightarrow>
                 w1\<lparr>dir_files := yaml_files st,
                    console := stdout st @ [Traceback x]\<rparr>)"

definition add_heroic_games_to_lutris ::
    "(ustring \<Rightarrow> ustring) \<Rightarrow> (nat \<Rightarrow> game_env) \<Rightarrow> world \<Rightarrow> world" where
  "add_heroic_games_to_lutris ul env w =
     (let (lutris_config_dir, w1) = find_lutris_config_dir w in
      if \<not> (library_json w1 \<noteq> Absent \<and> pga_db w1 \<noteq> DbMissing \<and> lutris_config_dir \<noteq> None) then
        w1\<lparr>console := console w1 @ [ErrRequiredNotFound]
              @ (if library_json w1 = Absent then [MissingLibrary] else [])
              @ (if pga_db w1 = DbMissing then [MissingDb] else [])
              @ (if lutris_config_dir = None then [MissingConfigDir] else [])\<rparr>
      else
        case (library_json w1, lutris_config_dir) of
          (Parsed heroic_data, Some d) \<Rightarrow> import_games ul env d heroic_data w1
        | _ \<Rightarrow> w1\<lparr>console := console w1 @ [ErrLibraryUnreadable]\<rparr>)"

text \<open>\<^verbatim>\<open>main\<close>: \<open>typed\<close> is the line the user types at the prompt.\<close>

definition main :: "(ustring \<Rightarrow> ustring) \<Rightarrow> (nat \<Rightarrow> game_env) \<Rightarrow> ustring \<Rightarrow> world \<Rightarrow> world" where
  "main ul env typed w =
     (let w0 = w\<lparr>console := console w @ [Banner, Prompt]\<rparr>;
          response = str_lower ul typed
      in if response \<noteq> ustr ''y'' then w0\<lparr>console := console w0 @ [Cancelled]\<rparr>
         else
           let w1 = add_heroic_games_to_lutris ul env w0
           in w1\<lparr>console := console w1 @ [Done]\<rparr>)"

subsection \<open>Example inputs\<close>

text \<open>Concrete entries, iterations and worlds on which the theorems below are evaluated.\<close>

text \<open>The title of the specification's end-to-end example: \<^verbatim>\<open>Foo: Bar's Quest\<close>
  followed by the trade mark sign.\<close>

definition quest_title :: ustring where
  "quest_title = ustr ''Foo: Bar'' @ [39] @ ustr ''s Quest'' @ [8482]"

text \<open>An installed entry with that title, an executable and no install path.\<close>

definition quest_game :: json where
  "quest_game =
     JObj [(ustr ''app_name'', JStr (ustr ''quest'')),
           (ustr ''title'', JStr quest_title),
           (ustr ''is_installed'', JBool True),
           (ustr ''install'', JObj [(ustr ''executable'', JStr (ustr ''/games/Foo/foo.exe''))])]"

text \<open>An iteration in which the file is written and the insert accepted.\<close>

definition fair_env :: game_env where
  "fair_env = \<lparr>now = 1700000000, yaml_write = WriteOk, db_accepts = True\<rparr>"

text \<open>The same, with a clock that moves on by a second from one iteration to the next.\<close>

definition ticking_env :: "nat \<Rightarrow> game_env" where
  "ticking_env i = \<lparr>now = 1700000000 + int i, yaml_write = WriteOk, db_accepts = True\<rparr>"

text \<open>The state in which the loop starts when there are no files and nothing was printed.\<close>

definition fresh_state :: run_state where
  "fresh_state = \<lparr>yaml_files = Map.empty, pending = [], added_games = 0, skipped_games = 0,
                  stdout = []\<rparr>"

text \<open>A row a previous run inserted for that title.\<close>

definition quest_row :: game_row where
  "quest_row = insert_params (JStr quest_title) (ustr ''foo-bars-quest'')
     (JStr (ustr ''/games/Foo/foo.exe'')) (JStr (ustr ''/games/Foo''))
     (ustr ''foo-bars-quest-1600000000'')"

text \<open>A world with a library of the given entries, no per-game option files, the first
  configuration directory in place and a database with the given rows.\<close>

definition demo_world :: "json list \<Rightarrow> game_row list \<Rightarrow> world" where
  "demo_world games rows =
     \<lparr>library_json = Parsed (JObj [(ustr ''games'', JArr games)]),
      game_config_json = (\<lambda>app_name. Stat Absent),
      lutris_dirs = (\<lambda>i. i = 0),
      mkdir_ok = False,
      pga_db = DbTable rows,
      dir_files = Map.empty,
      console = [],
      db_connects = 0\<rparr>"

text \<open>An entry whose install-state flag is false.\<close>

definition shelved_game :: json where
  "shelved_game =
     JObj [(ustr ''app_name'', JStr (ustr ''shelved'')),
           (ustr ''title'', JStr (ustr ''Shelved'')),
           (ustr ''is_installed'', JBool False),
           (ustr ''install'', JObj [(ustr ''executable'', JStr (ustr ''/games/s/s.exe''))])]"

text \<open>An entry without an install-state flag.\<close>

definition untagged_game :: json where
  "untagged_game =
     JObj [(ustr ''app_name'', JStr (ustr ''untagged'')),
           (ustr ''title'', JStr (ustr ''Untagged'')),
           (ustr ''install'', JObj [(ustr ''executable'', JStr (ustr ''/games/u/u.exe''))])]"






text \<open>Another installed entry whose title gives the slug of the first example.\<close>

definition quest_twin :: json where
  "quest_twin =
     JObj [(ustr ''app_name'', JStr (ustr ''twin'')),
           (ustr ''title'', JStr (ustr ''FOO BARS QUEST'')),
           (ustr ''is_installed'', JBool True),
           (ustr ''install'', JObj [(ustr ''executable'', JStr (ustr ''/twin/run.exe'')),
                                   (ustr ''path'', JStr (ustr ''/twin''))])]"

text \<open>An installed entry whose title is a number: \<^verbatim>\<open>create_slug\<close> raises on it.\<close>

definition broken_game :: json where
  "broken_game = JObj [(ustr ''title'', JInt 5), (ustr ''is_installed'', JBool True)]"

subsection \<open>Facts about \<^verbatim>\<open>create_slug\<close>\<close>

lemma str_replace_single:
  "str_replace [a] new s = concat (map (\<lambda>c. if c = a then new else [c]) s)"
  by (induction s) (simp_all add: str_replace_def)

lemma ustr_literals:
  "ustr '' '' = [32]" "ustr ''-'' = [45]" "ustr '':'' = [58]" "ustr ''.'' = [46]"
  "ustr ''&'' = [38]" "ustr ''and'' = [97, 110, 100]"
  by (simp_all add: ustr_def)

lemma replace_chain_chars:
  "str_replace [38] [97, 110, 100]
     (str_replace [46] []
       (str_replace [8482] []
         (str_replace [174] []
           (str_replace [39] []
             (str_replace [58] []
               (str_replace [32] [45] s)))))) =
   concat (map (\<lambda>c. if c \<in> {58, 39, 174, 8482, 46} then []
                     else if c = 32 then [45]
                     else if c = 38 then [97, 110, 100]
                     else [c]) s)"
  unfolding str_replace_single by (induction s) simp_all

lemma spec_passes_chars:
  "concat (map (\<lambda>c. if c = 38 then [97, 110, 100] else [c])
     (filter (\<lambda>c. c \<notin> {58, 39, 174, 8482, 46})
       (map (\<lambda>c. if c = 32 then 45 else c) (s :: ustring)))) =
   concat (map (\<lambda>c. if c \<in> {58, 39, 174, 8482, 46} then []
                     else if c = 32 then [45]
                     else if c = 38 then [97, 110, 100]
                     else [c]) s)"
proof (induction s)
  case Nil
  show ?case by simp
next
  case (Cons a s)
  have "a = 32 \<or> a = 38 \<or> a \<in> {58, 39, 174, 8482, 46} \<or>
        (a \<noteq> 32 \<and> a \<noteq> 38 \<and> a \<notin> {58, 39, 174, 8482, 46})"
    by blast
  then show ?case
  proof (elim disjE)
    assume "a = 32"
    then show ?thesis using Cons.IH by simp
  next
    assume "a = 38"
    then show ?thesis using Cons.IH by simp
  next
    assume "a \<in> {58, 39, 174, 8482, 46}"
    then show ?thesis using Cons.IH by auto
  next
    assume "a \<noteq> 32 \<and> a \<noteq> 38 \<and> a \<notin> {58, 39, 174, 8482, 46}"
    then show ?thesis using Cons.IH by simp
  qed
qed

lemma create_slug_chars:
  "create_slug ul title =
     concat (map (\<lambda>c. if c \<in> {58, 39, 174, 8482, 46} then []
                       else if c = 32 then [45]
                       else if c = 38 then [97, 110, 100]
                       else [c]) (str_lower ul title))"
  unfolding create_slug_def ustr_literals by (rule replace_chain_chars)

lemmas slug_eval =
  create_slug_def str_replace_def str_lower_def ustr_def lower_ascii_def plain_char_def

text \<open>
  Claim C1. For every title, \<^verbatim>\<open>create_slug\<close> computes what the specification's
  derivation computes: the lowercased title with spaces replaced by hyphens, the fixed
  set of characters stripped and \<^verbatim>\<open>&\<close> replaced by \<^verbatim>\<open>and\<close>. For the title
  \<^verbatim>\<open>Foo: Bar's Quest\<close> followed by the trade mark sign, the slug is
  \<^verbatim>\<open>foo-bars-quest\<close>.
\<close>

theorem create_slug_follows_spec:
  "create_slug ul title = slug_spec ul title \<and>
   create_slug ul (ustr ''Foo: Bar'' @ [39] @ ustr ''s Quest'' @ [8482]) = ustr ''foo-bars-quest''"
proof
  show "create_slug ul title = slug_spec ul title"
    unfolding create_slug_chars slug_spec_def ustr_literals
    by (rule spec_passes_chars [symmetric])
  show "create_slug ul (ustr ''Foo: Bar'' @ [39] @ ustr ''s Quest'' @ [8482]) =
        ustr ''foo-bars-quest''"
    by (simp add: slug_eval)
qed

text \<open>
  Claim C10. The characters \<^verbatim>\<open>create_slug\<close> strips are exactly the colon, the
  apostrophe, the registered sign, the trade mark sign and the full stop: the slug is the
  lowercased title with each of these five dropped, each space turned into a hyphen, each
  \<^verbatim>\<open>&\<close> turned into \<^verbatim>\<open>and\<close>, and every other character kept as it is. None of
  the five occurs in a slug, while a slash, a question mark and an exclamation mark stay:
  the title \<^verbatim>\<open>AC/DC: Who?!\<close> gives \<^verbatim>\<open>ac/dc-who?!\<close>.
\<close>

theorem create_slug_stripped_set:
  "create_slug ul title =
     concat (map (\<lambda>c. if c \<in> {58, 39, 174, 8482, 46} then []
                       else if c = 32 then [45]
                       else if c = 38 then [97, 110, 100]
                       else [c]) (str_lower ul title)) \<and>
   set (create_slug ul title) \<inter> {58, 39, 174, 8482, 46} = {} \<and>
   create_slug ul (ustr ''AC/DC: Who?!'') = ustr ''ac/dc-who?!''"
proof (intro conjI)
  show "create_slug ul title =
     concat (map (\<lambda>c. if c \<in> {58, 39, 174, 8482, 46} then []
                       else if c = 32 then [45]
                       else if c = 38 then [97, 110, 100]
                       else [c]) (str_lower ul title))"
    by (rule create_slug_chars)
  show "set (create_slug ul title) \<inter> {58, 39, 174, 8482, 46} = {}"
    unfolding create_slug_chars by auto
  show "create_slug ul (ustr ''AC/DC: Who?!'') = ustr ''ac/dc-who?!''"
    by (simp add: slug_eval)
qed

subsection \<open>Facts about the loop\<close>

lemma bind_param_printable: "bind_param v \<noteq> Some UnicodeEncodeError \<Longrightarrow> printable v"
  by (cases v) (auto split: if_splits)

lemma execute_insert_accepted_printable:
  assumes "execute_insert accepts (insert_params t s x dir c) = None"
  shows "printable t \<and> printable (JStr s) \<and> printable x"
  using assms
  by (auto simp: execute_insert_def insert_params_def intro!: bind_param_printable
           split: option.splits)


lemma migrate_game_existing:
  "JStr game_slug \<in> existing_slugs \<Longrightarrow>
   migrate_game cfgs d existing_slugs e game_title game_slug executable_path install_dir app_name st =
     (st\<lparr>stdout := stdout st @ [SkipSlugExists game_title game_slug],
         skipped_games := skipped_games st + 1\<rparr>, None)"
  by (simp add: migrate_game_def)

lemma migrate_game_options_raise:
  "JStr game_slug \<notin> existing_slugs \<Longrightarrow>
   get_heroic_game_config app_name (cfgs app_name) = Inl x \<Longrightarrow>
   migrate_game cfgs d existing_slugs e game_title game_slug executable_path install_dir app_name st =
     (st, Some x)"
  by (simp add: migrate_game_def)

text \<open>After an accepted insert the file and the row are there, whatever the prints do.\<close>

lemma migrate_game_inserted:
  assumes "JStr game_slug \<notin> existing_slugs"
      and "get_heroic_game_config app_name (cfgs app_name) = Inr (heroic_config, warnings)"
      and "yaml_write e = WriteOk"
      and "execute_insert (db_accepts e)
             (insert_params game_title game_slug executable_path install_dir
                (config_slug_of game_slug (now e))) = None"
      and "migrate_game cfgs d existing_slugs e game_title game_slug executable_path install_dir
             app_name st = (st', raised)"
  shows "pending st' = pending st @
            [insert_params game_title game_slug executable_path install_dir
               (config_slug_of game_slug (now e))] \<and>
         yaml_files st' = (yaml_files st)(yaml_path_of d (config_slug_of game_slug (now e)) \<mapsto>
            Dumped (lutris_config_of executable_path heroic_config)) \<and>
         skipped_games st' = skipped_games st"
  using assms
  by (auto simp: migrate_game_def Let_def and_next_def py_print_def split: if_splits)

text \<open>When the four lines can be printed as well, the entry is counted as added.\<close>

lemma migrate_game_added:
  assumes "JStr game_slug \<notin> existing_slugs"
      and "get_heroic_game_config app_name (cfgs app_name) = Inr (heroic_config, warnings)"
      and "yaml_write e = WriteOk"
      and "execute_insert (db_accepts e)
             (insert_params game_title game_slug executable_path install_dir
                (config_slug_of game_slug (now e))) = None"
      and "printable (dict_get heroic_config (ustr ''wine_prefix'') JNull)"
  shows "migrate_game cfgs d existing_slugs e game_title game_slug executable_path install_dir
           app_name st =
     (st\<lparr>stdout := stdout st @ warnings @
            [Added game_title, AddedExecutable executable_path,
             AddedPrefix (if truthy (dict_get heroic_config (ustr ''wine_prefix'') JNull)
                then dict_get heroic_config (ustr ''wine_prefix'') JNull
                else JStr (ustr ''Not found'')),
             AddedConfig (yaml_path_of d (config_slug_of game_slug (now e)))],
         yaml_files := (yaml_files st)(yaml_path_of d (config_slug_of game_slug (now e)) \<mapsto>
            Dumped (lutris_config_of executable_path heroic_config)),
         pending := pending st @
            [insert_params game_title game_slug executable_path install_dir
               (config_slug_of game_slug (now e))],
         added_games := added_games st + 1\<rparr>, None)"
proof -
  from execute_insert_accepted_printable [OF assms(4)]
  have p: "printable game_title" "printable (JStr game_slug)" "printable executable_path"
    by simp_all
  have nf: "printable (JStr (ustr ''Not found''))"
    by (simp add: ustr_def surrogate_def)
  from assms p nf show ?thesis
    by (simp add: migrate_game_def Let_def and_next_def py_print_def del: printable.simps)
qed


lemma examine_game_candidate:
  assumes "examine_game ul game = Inr (Candidate game_title game_slug executable_path install_dir app_name)"
  shows "\<exists>title. py_get game (ustr ''title'') JNull = Inr (JStr title) \<and> game_title = JStr title \<and>
           game_slug = create_slug ul title"
  using assms
  by (cases game; cases "dict_get (case game of JObj kvs \<Rightarrow> kvs) (ustr ''title'') JNull")
     (auto simp: examine_game_def and_then_def split: if_splits sum.splits)

lemma process_game_not_installed:
  assumes "map_of kvs (ustr ''is_installed'') = None \<or>
           map_of kvs (ustr ''is_installed'') = Some (JBool False)"
  shows "process_game ul cfgs d existing_slugs e (JObj kvs) st = (st, None)"
  using assms by (auto simp: process_game_def examine_game_def and_then_def dict_get_def)

lemma process_game_candidate:
  "examine_game ul game = Inr (Candidate t s x dir a) \<Longrightarrow>
   process_game ul cfgs d existing_slugs e game st =
     migrate_game cfgs d existing_slugs e t s x dir a st"
  by (simp add: process_game_def)

lemma migrate_game_pending:
  assumes "migrate_game cfgs d existing_slugs e game_title game_slug executable_path install_dir app_name st = (st', raised)"
  shows "\<exists>new. pending st' = pending st @ new \<and> (\<forall>r\<in>set new. row_slug r \<notin> existing_slugs)"
proof (cases "JStr game_slug \<in> existing_slugs")
  case True
  with assms show ?thesis by (auto simp: migrate_game_existing)
next
  case False
  with assms show ?thesis
    by (auto simp: migrate_game_def Let_def insert_params_def and_next_def py_print_def
             split: prod.splits sum.splits write_outcome.splits option.splits exn.splits if_splits)
qed

lemma process_game_pending:
  assumes "process_game ul cfgs d existing_slugs e game st = (st', raised)"
  shows "\<exists>new. pending st' = pending st @ new \<and> (\<forall>r\<in>set new. row_slug r \<notin> existing_slugs)"
  using assms
  by (auto simp: process_game_def and_next_def py_print_def
           split: sum.splits entry.splits if_splits dest: migrate_game_pending)

lemma process_games_pending:
  assumes "process_games ul cfgs d existing_slugs env i games st = (st', raised)"
  shows "\<exists>new. pending st' = pending st @ new \<and> (\<forall>r\<in>set new. row_slug r \<notin> existing_slugs)"
  using assms
proof (induction games arbitrary: i st)
  case Nil
  then show ?case by simp
next
  case (Cons game games)
  obtain st1 r1 where step: "process_game ul cfgs d existing_slugs (env i) game st = (st1, r1)"
    by (cases "process_game ul cfgs d existing_slugs (env i) game st") auto
  from process_game_pending [OF step] obtain new1 where
    new1: "pending st1 = pending st @ new1" "\<forall>r\<in>set new1. row_slug r \<notin> existing_slugs"
    by blast
  show ?case
  proof (cases r1)
    case (Some x)
    with Cons.prems step have "st' = st1" by simp
    with new1 show ?thesis by blast
  next
    case None
    with Cons.prems step
    have "process_games ul cfgs d existing_slugs env (Suc i) games st1 = (st', raised)" by simp
    from Cons.IH [OF this] obtain new2 where
      "pending st' = pending st1 @ new2" "\<forall>r\<in>set new2. row_slug r \<notin> existing_slugs"
      by blast
    with new1 have "pending st' = pending st @ (new1 @ new2) \<and>
        (\<forall>r\<in>set (new1 @ new2). row_slug r \<notin> existing_slugs)"
      by auto
    then show ?thesis by blast
  qed
qed

lemma import_games_table:
  assumes "pga_db w = DbTable rows"
  shows "\<exists>new. pga_db (import_games ul env d heroic_data w) = DbTable (rows @ new) \<and>
           (\<forall>r\<in>set new. row_slug r \<notin> set (map row_slug rows))"
proof (cases "and_then (py_get heroic_data (ustr ''games'') (JArr [])) py_iter")
  case (Inl x)
  with assms have "pga_db (import_games ul env d heroic_data w) = DbTable (rows @ [])"
    by (simp add: import_games_def Let_def)
  then show ?thesis by (metis empty_iff list.set(1))
next
  case (Inr games)
  obtain st raised where run:
    "process_games ul (game_config_json w) d (set (map row_slug rows)) env 0 games
       \<lparr>yaml_files = dir_files w, pending = [], added_games = 0, skipped_games = 0,
        stdout = console w\<rparr> = (st, raised)"
    by (cases "process_games ul (game_config_json w) d (set (map row_slug rows)) env 0 games
       \<lparr>yaml_files = dir_files w, pending = [], added_games = 0, skipped_games = 0,
        stdout = console w\<rparr>") auto
  from process_games_pending [OF run]
  have new: "\<forall>r\<in>set (pending st). row_slug r \<notin> set (map row_slug rows)" by auto
  show ?thesis
  proof (cases raised)
    case None
    with assms Inr run have "pga_db (import_games ul env d heroic_data w) = DbTable (rows @ pending st)"
      by (simp add: import_games_def Let_def)
    with new show ?thesis by blast
  next
    case (Some x)
    with assms Inr run have "pga_db (import_games ul env d heroic_data w) = DbTable (rows @ [])"
      by (simp add: import_games_def Let_def)
    then show ?thesis by (metis empty_iff list.set(1))
  qed
qed

lemma find_lutris_config_dir_db:
  "pga_db (snd (find_lutris_config_dir w)) = pga_db w"
  by (simp add: find_lutris_config_dir_def)

lemma add_heroic_games_table:
  assumes "pga_db w = DbTable rows"
  shows "\<exists>new. pga_db (add_heroic_games_to_lutris ul env w) = DbTable (rows @ new) \<and>
           (\<forall>r\<in>set new. row_slug r \<notin> set (map row_slug rows))"
proof -
  obtain dir w1 where f: "find_lutris_config_dir w = (dir, w1)"
    by (cases "find_lutris_config_dir w") auto
  with find_lutris_config_dir_db [of w] assms have db: "pga_db w1 = DbTable rows" by simp
  have keep: "\<exists>new. DbTable rows = DbTable (rows @ new) \<and>
      (\<forall>r\<in>set new. row_slug r \<notin> set (map row_slug rows))"
    by (rule exI [of _ "[]"]) simp
  show ?thesis
  proof (cases "library_json w1")
    case Absent
    with f db keep show ?thesis by (simp add: add_heroic_games_to_lutris_def)
  next
    case Unreadable
    with f db keep show ?thesis
      by (cases dir) (simp_all add: add_heroic_games_to_lutris_def)
  next
    case (Parsed heroic_data)
    show ?thesis
    proof (cases dir)
      case None
      with f db keep Parsed show ?thesis by (simp add: add_heroic_games_to_lutris_def)
    next
      case (Some d)
      with f db Parsed
      have "add_heroic_games_to_lutris ul env w = import_games ul env d heroic_data w1"
        by (simp add: add_heroic_games_to_lutris_def)
      with import_games_table [OF db] show ?thesis by simp
    qed
  qed
qed

lemma migrate_game_rows:
  assumes "migrate_game cfgs d existing_slugs e t s x dir a st = (st', raised)"
  shows "pending st' = pending st \<or>
         pending st' = pending st @ [insert_params t s x dir (config_slug_of s (now e))]"
  using assms
  by (auto simp: migrate_game_def Let_def and_next_def py_print_def
           split: prod.splits sum.splits write_outcome.splits option.splits exn.splits if_splits)

lemma add_heroic_games_import:
  assumes "find_lutris_config_dir w = (Some d, w1)"
      and "library_json w = Parsed heroic_data"
      and "pga_db w = DbTable rows"
  shows "add_heroic_games_to_lutris ul env w = import_games ul env d heroic_data w1 \<and>
         pga_db w1 = DbTable rows \<and> game_config_json w1 = game_config_json w \<and>
         dir_files w1 = dir_files w"
  using assms
  by (auto simp: add_heroic_games_to_lutris_def find_lutris_config_dir_def split: if_splits)

lemma import_games_completed:
  assumes "pga_db w = DbTable rows"
      and "and_then (py_get heroic_data (ustr ''games'') (JArr [])) py_iter = Inr games"
      and "process_games ul (game_config_json w) d (set (map row_slug rows)) env 0 games
             \<lparr>yaml_files = dir_files w, pending = [], added_games = 0, skipped_games = 0,
              stdout = console w\<rparr> = (st, None)"
  shows "import_games ul env d heroic_data w =
           w\<lparr>db_connects := db_connects w + 1,
             pga_db := DbTable (rows @ pending st),
             dir_files := yaml_files st,
             console := stdout st @ [Summary (added_games st) (skipped_games st)]\<rparr>"
  using assms by (simp add: import_games_def Let_def)

lemma import_games_raised:
  assumes "pga_db w = DbTable rows"
      and "and_then (py_get heroic_data (ustr ''games'') (JArr [])) py_iter = Inr games"
      and "process_games ul (game_config_json w) d (set (map row_slug rows)) env 0 games
             \<lparr>yaml_files = dir_files w, pending = [], added_games = 0, skipped_games = 0,
              stdout = console w\<rparr> = (st, Some x)"
  shows "import_games ul env d heroic_data w =
           w\<lparr>db_connects := db_connects w + 1,
             dir_files := yaml_files st,
             console := stdout st @ [Traceback x]\<rparr>"
  using assms by (simp add: import_games_def Let_def)

lemma migrate_game_stdout:
  assumes "migrate_game cfgs d existing_slugs e t s x dir a st = (st', raised)"
  shows "\<exists>ms. stdout st' = stdout st @ ms"
  using assms
  by (auto simp: migrate_game_def Let_def and_next_def py_print_def
           split: prod.splits sum.splits write_outcome.splits option.splits exn.splits if_splits)

lemma process_game_stdout:
  assumes "process_game ul cfgs d existing_slugs e game st = (st', raised)"
  shows "\<exists>ms. stdout st' = stdout st @ ms"
  using assms
  by (auto simp: process_game_def and_next_def py_print_def
           split: sum.splits entry.splits if_splits dest: migrate_game_stdout)

lemma process_games_stdout:
  assumes "process_games ul cfgs d existing_slugs env i games st = (st', raised)"
  shows "\<exists>ms. stdout st' = stdout st @ ms"
  using assms
proof (induction games arbitrary: i st)
  case Nil
  then show ?case by simp
next
  case (Cons game games)
  obtain st1 r1 where step: "process_game ul cfgs d existing_slugs (env i) game st = (st1, r1)"
    by (cases "process_game ul cfgs d existing_slugs (env i) game st") auto
  from process_game_stdout [OF step] obtain ms1 where ms1: "stdout st1 = stdout st @ ms1"
    by blast
  show ?case
  proof (cases r1)
    case (Some x)
    with Cons.prems step have "st' = st1" by simp
    with ms1 show ?thesis by blast
  next
    case None
    with Cons.prems step
    have "process_games ul cfgs d existing_slugs env (Suc i) games st1 = (st', raised)" by simp
    from Cons.IH [OF this] obtain ms2 where "stdout st' = stdout st1 @ ms2" by blast
    with ms1 have "stdout st' = stdout st @ (ms1 @ ms2)" by simp
    then show ?thesis by blast
  qed
qed

lemma import_games_console:
  "\<exists>ms. console (import_games ul env d heroic_data w) = console w @ ms"
proof (cases "pga_db w")
  case (DbTable rows)
  show ?thesis
  proof (cases "and_then (py_get heroic_data (ustr ''games'') (JArr [])) py_iter")
    case (Inl x)
    with DbTable show ?thesis by (simp add: import_games_def Let_def)
  next
    case (Inr games)
    obtain st raised where run:
      "process_games ul (game_config_json w) d (set (map row_slug rows)) env 0 games
         \<lparr>yaml_files = dir_files w, pending = [], added_games = 0, skipped_games = 0,
          stdout = console w\<rparr> = (st, raised)"
      by (cases "process_games ul (game_config_json w) d (set (map row_slug rows)) env 0 games
         \<lparr>yaml_files = dir_files w, pending = [], added_games = 0, skipped_games = 0,
          stdout = console w\<rparr>") auto
    from process_games_stdout [OF run] obtain ms where ms: "stdout st = console w @ ms"
      by auto
    show ?thesis
    proof (cases raised)
      case None
      from import_games_completed [OF DbTable Inr run [unfolded None]] ms
      show ?thesis by simp
    next
      case (Some x)
      from import_games_raised [OF DbTable Inr run [unfolded Some]] ms
      show ?thesis by simp
    qed
  qed
qed (simp_all add: import_games_def Let_def)

lemma find_lutris_config_dir_console:
  "\<exists>ms. console (snd (find_lutris_config_dir w)) = console w @ ms"
  by (simp add: find_lutris_config_dir_def)

lemma add_heroic_games_console:
  "\<exists>ms. console (add_heroic_games_to_lutris ul env w) = console w @ ms"
proof -
  obtain dir w1 where f: "find_lutris_config_dir w = (dir, w1)"
    by (cases "find_lutris_config_dir w") auto
  with find_lutris_config_dir_console [of w] obtain ms1 where ms1: "console w1 = console w @ ms1"
    by auto
  have "\<exists>ms. console (add_heroic_games_to_lutris ul env w) = console w1 @ ms"
  proof (cases "library_json w1 \<noteq> Absent \<and> pga_db w1 \<noteq> DbMissing \<and> dir \<noteq> None")
    case False
    with f show ?thesis by (auto simp: add_heroic_games_to_lutris_def)
  next
    case True
    then obtain d where d: "dir = Some d" by auto
    show ?thesis
    proof (cases "library_json w1")
      case (Parsed heroic_data)
      with f True d have "add_heroic_games_to_lutris ul env w = import_games ul env d heroic_data w1"
        by (simp add: add_heroic_games_to_lutris_def)
      with import_games_console [of ul env d heroic_data w1] show ?thesis by simp
    qed (use f True d in \<open>simp_all add: add_heroic_games_to_lutris_def\<close>)
  qed
  with ms1 show ?thesis by auto
qed

lemma examine_game_install:
  assumes ex: "examine_game ul game = Inr (Candidate t s x dir a)"
      and install: "py_get game (ustr ''install'') (JObj []) = Inr (JObj install_info)"
      and exe: "dict_get install_info (ustr ''executable'') JNull = JStr p"
      and nodir: "\<not> truthy (dict_get install_info (ustr ''path'') JNull)"
  shows "x = JStr p \<and> dir = JStr (dirname p)"
  using assms
  by (cases game)
     (auto simp: examine_game_def and_then_def split: if_splits sum.splits)

lemma examine_game_wellformed:
  assumes "py_get game (ustr ''is_installed'') (JBool False) = Inr v" "truthy v"
      and "py_get game (ustr ''title'') JNull = Inr (JStr title)" "title \<noteq> []"
      and "py_get game (ustr ''install'') (JObj []) = Inr (JObj install_info)"
      and "dict_get install_info (ustr ''executable'') JNull = JStr p" "p \<noteq> []"
      and "\<not> truthy (dict_get install_info (ustr ''path'') JNull)"
      and "py_get game (ustr ''app_name'') JNull = Inr a"
  shows "examine_game ul game =
           Inr (Candidate (JStr title) (create_slug ul title) (JStr p) (JStr (dirname p)) a)"
  using assms by (simp add: examine_game_def and_then_def)

lemmas model_eval =
  slug_eval quest_title_def quest_game_def fair_env_def fresh_state_def quest_row_def
  demo_world_def examine_game_def and_then_def dict_get_def dirname_def str_rfind_def
  str_rstrip_def insert_params_def config_slug_of_def yaml_path_of_def path_parts_def
  lutris_config_of_def str_of_int_def str_of_nat.simps execute_insert_def
  get_heroic_game_config_def warn_config_def read_game_config_def py_print_def and_next_def
  surrogate_def

lemma examine_quest_game:
  "examine_game (\<lambda>s. s) quest_game =
     Inr (Candidate (JStr quest_title) (ustr ''foo-bars-quest'')
            (JStr (ustr ''/games/Foo/foo.exe'')) (JStr (ustr ''/games/Foo''))
            (JStr (ustr ''quest'')))"
  by (simp add: model_eval)

lemma examine_broken_game: "examine_game (\<lambda>s. s) broken_game = Inl AttributeError"
  by (simp add: broken_game_def examine_game_def and_then_def dict_get_def ustr_def)

lemma quest_config_slug:
  "config_slug_of (ustr ''foo-bars-quest'') 1700000000 = ustr ''foo-bars-quest-1700000000''"
  by (simp add: config_slug_of_def str_of_int_def str_of_nat.simps ustr_def)

lemma quest_yaml_path:
  "yaml_path_of 0 (ustr ''foo-bars-quest-1700000000'') =
     (ConfigDir 0, [ustr ''foo-bars-quest-1700000000.yml''])"
  by (simp add: yaml_path_of_def path_parts_def ustr_def)

lemma quest_insert_accepted:
  "execute_insert True
     (insert_params (JStr quest_title) (ustr ''foo-bars-quest'')
        (JStr (ustr ''/games/Foo/foo.exe'')) (JStr (ustr ''/games/Foo''))
        (ustr ''foo-bars-quest-1700000000'')) = None"
  by (simp add: execute_insert_def insert_params_def quest_title_def ustr_def surrogate_def)

lemma quest_game_added:
  "process_game (\<lambda>s. s) (\<lambda>a. Stat Absent) 0 {} fair_env quest_game st =
     (st\<lparr>stdout := stdout st @
            [Added (JStr quest_title), AddedExecutable (JStr (ustr ''/games/Foo/foo.exe'')),
             AddedPrefix (JStr (ustr ''Not found'')),
             AddedConfig (ConfigDir 0, [ustr ''foo-bars-quest-1700000000.yml''])],
         yaml_files := (yaml_files st)((ConfigDir 0, [ustr ''foo-bars-quest-1700000000.yml'']) \<mapsto>
            Dumped \<lparr>game_exe = JStr (ustr ''/games/Foo/foo.exe''), game_prefix = JNull,
                    wine_dxvk = JBool False, wine_esync = JBool False, wine_fsync = JBool False\<rparr>),
         pending := pending st @
            [insert_params (JStr quest_title) (ustr ''foo-bars-quest'')
               (JStr (ustr ''/games/Foo/foo.exe'')) (JStr (ustr ''/games/Foo''))
               (ustr ''foo-bars-quest-1700000000'')],
         added_games := added_games st + 1\<rparr>, None)"
proof -
  have fresh: "JStr (ustr ''foo-bars-quest'') \<notin> {}" by simp
  have opts: "get_heroic_game_config (JStr (ustr ''quest'')) ((\<lambda>a. Stat Absent) (JStr (ustr ''quest''))) =
      Inr ([], [])"
    by (simp add: get_heroic_game_config_def)
  have written: "yaml_write fair_env = WriteOk" by (simp add: fair_env_def)
  have acc: "execute_insert (db_accepts fair_env)
     (insert_params (JStr quest_title) (ustr ''foo-bars-quest'')
        (JStr (ustr ''/games/Foo/foo.exe'')) (JStr (ustr ''/games/Foo''))
        (config_slug_of (ustr ''foo-bars-quest'') (now fair_env))) = None"
    by (simp add: fair_env_def quest_config_slug quest_insert_accepted)
  have pr: "printable (dict_get [] (ustr ''wine_prefix'') JNull)" by (simp add: dict_get_def)
  show ?thesis
    unfolding process_game_candidate [OF examine_quest_game]
      migrate_game_added [OF fresh opts written acc pr]
    by (simp add: fair_env_def quest_config_slug quest_yaml_path lutris_config_of_def dict_get_def)
qed

lemma quest_then_broken_loop:
  "process_games (\<lambda>s. s) (\<lambda>a. Stat Absent) 0 {} (\<lambda>i. fair_env) 0 [quest_game, broken_game]
      \<lparr>yaml_files = Map.empty, pending = [], added_games = 0, skipped_games = 0, stdout = []\<rparr> =
     (\<lparr>yaml_files = [(ConfigDir 0, [ustr ''foo-bars-quest-1700000000.yml'']) \<mapsto>
         Dumped \<lparr>game_exe = JStr (ustr ''/games/Foo/foo.exe''), game_prefix = JNull,
                 wine_dxvk = JBool False, wine_esync = JBool False, wine_fsync = JBool False\<rparr>],
       pending = [insert_params (JStr quest_title) (ustr ''foo-bars-quest'')
          (JStr (ustr ''/games/Foo/foo.exe'')) (JStr (ustr ''/games/Foo''))
          (ustr ''foo-bars-quest-1700000000'')],
       added_games = 1, skipped_games = 0,
       stdout = [Added (JStr quest_title), AddedExecutable (JStr (ustr ''/games/Foo/foo.exe'')),
          AddedPrefix (JStr (ustr ''Not found'')),
          AddedConfig (ConfigDir 0, [ustr ''foo-bars-quest-1700000000.yml''])]\<rparr>,
      Some AttributeError)"
  by (simp add: quest_game_added) (simp add: process_game_def examine_broken_game)


lemma str_rfind_last:
  assumes "c \<notin> set name"
  shows "str_rfind (dir @ c # name) c = int (length dir)"
proof -
  from assms have "takeWhile (\<lambda>x. x \<noteq> c) (rev name @ c # rev dir) = rev name"
    by (induction name rule: rev_induct) auto
  then show ?thesis by (simp add: str_rfind_def)
qed

lemma str_rfind_none: "c \<notin> set p \<Longrightarrow> str_rfind p c = - 1"
  by (simp add: str_rfind_def)

lemma dirname_head:
  assumes "47 \<notin> set name"
  shows "take (nat (str_rfind (dir @ replicate (Suc n) 47 @ name) 47 + 1))
           (dir @ replicate (Suc n) 47 @ name) = dir @ replicate (Suc n) 47"
proof -
  have split: "dir @ replicate (Suc n) 47 @ name = (dir @ replicate n 47) @ 47 # name"
    by (simp add: replicate_append_same)
  have "str_rfind ((dir @ replicate n 47) @ 47 # name) 47 = int (length (dir @ replicate n 47))"
    by (rule str_rfind_last [OF assms])
  then have "nat (str_rfind (dir @ replicate (Suc n) 47 @ name) 47 + 1) =
      length (dir @ replicate (Suc n) 47)"
    by (simp only: split) (simp add: nat_add_distrib)
  then show ?thesis by simp
qed

lemma dirname_parent:
  assumes "47 \<notin> set name" "dir \<noteq> []" "last dir \<noteq> 47"
  shows "dirname (dir @ replicate (Suc n) 47 @ name) = dir"
proof -
  from assms(2,3) have "last dir \<in> set dir" by simp
  have mixed: "dir @ replicate (Suc n) 47 \<noteq>
      replicate (length (dir @ replicate (Suc n) 47)) 47"
  proof
    assume eq: "dir @ replicate (Suc n) 47 = replicate (length (dir @ replicate (Suc n) 47)) 47"
    from \<open>last dir \<in> set dir\<close> have "last dir \<in> set (dir @ replicate (Suc n) 47)" by simp
    then have "last dir \<in> set (replicate (length (dir @ replicate (Suc n) 47)) 47)"
      by (simp only: eq [symmetric])
    then have "last dir = 47" by auto
    with assms(3) show False by simp
  qed
  from assms(2,3) have keep: "dropWhile (\<lambda>x. x = 47) (rev dir) = rev dir"
    by (cases dir rule: rev_cases) simp_all
  have turned: "rev (dir @ replicate (Suc n) 47) = replicate (Suc n) 47 @ rev dir"
    by (simp only: rev_append rev_replicate)
  have dropped: "dropWhile (\<lambda>x. x = 47) (replicate (Suc n) 47 @ rev dir) =
      dropWhile (\<lambda>x. x = 47) (rev dir)"
    by (rule dropWhile_append2) auto
  have strip: "str_rstrip (dir @ replicate (Suc n) 47) 47 = dir"
    unfolding str_rstrip_def turned dropped keep by (rule rev_rev_ident)
  show ?thesis
    unfolding dirname_def Let_def dirname_head [OF assms(1)] using mixed strip by simp
qed

lemma dirname_root:
  assumes "47 \<notin> set name"
  shows "dirname (replicate (Suc n) 47 @ name) = replicate (Suc n) 47"
proof -
  from dirname_head [OF assms, of "[]" n]
  have "take (nat (str_rfind (replicate (Suc n) 47 @ name) 47 + 1)) (replicate (Suc n) 47 @ name) =
      replicate (Suc n) 47"
    by simp
  then show ?thesis unfolding dirname_def Let_def by simp
qed

lemma dirname_bare: "47 \<notin> set p \<Longrightarrow> dirname p = []"
  by (simp add: dirname_def Let_def str_rfind_none)




lemma process_games_append:
  "process_games ul cfgs d existing_slugs env i (xs @ ys) st =
     (case process_games ul cfgs d existing_slugs env i xs st of
        (st1, Some x) \<Rightarrow> (st1, Some x)
      | (st1, None) \<Rightarrow> process_games ul cfgs d existing_slugs env (i + length xs) ys st1)"
proof (induction xs arbitrary: i st)
  case Nil
  show ?case by simp
next
  case (Cons g xs)
  show ?case
  proof (cases "process_game ul cfgs d existing_slugs (env i) g st")
    case (Pair st1 r)
    then show ?thesis by (cases r) (auto simp: Cons.IH split: prod.splits option.splits)
  qed
qed

text \<open>A loop that ends without an exception went through every entry without one.\<close>

lemma process_games_through:
  assumes run: "process_games ul cfgs d existing_slugs env i games st = (st', None)"
      and k: "k < length games"
  shows "\<exists>sa sb. process_games ul cfgs d existing_slugs env i (take k games) st = (sa, None) \<and>
           process_game ul cfgs d existing_slugs (env (i + k)) (games ! k) sa = (sb, None) \<and>
           process_games ul cfgs d existing_slugs env i (take (Suc k) games) st = (sb, None) \<and>
           process_games ul cfgs d existing_slugs env (i + Suc k) (drop (Suc k) games) sb =
             (st', None)"
proof -
  from k have split: "games = take k games @ (games ! k # drop (Suc k) games)"
    by (simp add: id_take_nth_drop [symmetric])
  from k have len: "length (take k games) = k" by simp
  obtain sa ra where a: "process_games ul cfgs d existing_slugs env i (take k games) st = (sa, ra)"
    by (cases "process_games ul cfgs d existing_slugs env i (take k games) st") auto
  from run have whole: "process_games ul cfgs d existing_slugs env i
      (take k games @ (games ! k # drop (Suc k) games)) st = (st', None)"
    by (simp only: split [symmetric])
  from whole a have ra: "ra = None"
    by (cases ra) (simp_all add: process_games_append)
  from whole a ra len have rest: "process_games ul cfgs d existing_slugs env (i + k)
      (games ! k # drop (Suc k) games) sa = (st', None)"
    by (simp add: process_games_append)
  obtain sb rb where b: "process_game ul cfgs d existing_slugs (env (i + k)) (games ! k) sa =
      (sb, rb)"
    by (cases "process_game ul cfgs d existing_slugs (env (i + k)) (games ! k) sa") auto
  from rest b have rb: "rb = None" by (cases rb) simp_all
  from rest b rb have tail: "process_games ul cfgs d existing_slugs env (i + Suc k)
      (drop (Suc k) games) sb = (st', None)"
    by simp
  from k have "take (Suc k) games = take k games @ [games ! k]"
    by (simp add: take_Suc_conv_app_nth)
  with a ra b rb len have upto: "process_games ul cfgs d existing_slugs env i
      (take (Suc k) games) st = (sb, None)"
    by (simp add: process_games_append)
  from a ra b rb upto tail show ?thesis by blast
qed

lemma migrate_game_returned:
  assumes "JStr s \<notin> existing_slugs"
      and "migrate_game cfgs d existing_slugs e t s x dir a st = (st', None)"
  shows "\<exists>heroic_config warnings.
           get_heroic_game_config a (cfgs a) = Inr (heroic_config, warnings)"
  using assms by (cases "get_heroic_game_config a (cfgs a)") (auto simp: migrate_game_def)

text \<open>What one iteration leaves when the entry is written and inserted.\<close>

lemma process_game_migrated:
  assumes ex: "examine_game ul game = Inr (Candidate t s x dir a)"
      and fresh: "JStr s \<notin> existing_slugs"
      and written: "yaml_write e = WriteOk"
      and accepted: "execute_insert (db_accepts e)
                       (insert_params t s x dir (config_slug_of s (now e))) = None"
      and step: "process_game ul cfgs d existing_slugs e game st = (st', None)"
  shows "pending st' = pending st @ [insert_params t s x dir (config_slug_of s (now e))] \<and>
         (\<exists>heroic_config warnings.
            get_heroic_game_config a (cfgs a) = Inr (heroic_config, warnings) \<and>
            yaml_files st' (yaml_path_of d (config_slug_of s (now e))) =
              Some (Dumped (lutris_config_of x heroic_config)))"
proof -
  from step have mig: "migrate_game cfgs d existing_slugs e t s x dir a st = (st', None)"
    by (simp add: process_game_candidate [OF ex])
  from migrate_game_returned [OF fresh mig] obtain heroic_config warnings where
    opts: "get_heroic_game_config a (cfgs a) = Inr (heroic_config, warnings)"
    by blast
  from migrate_game_inserted [where cfgs = cfgs and app_name = a, OF fresh opts written accepted mig]
    opts
  show ?thesis by auto
qed

lemma process_games_two_entries:
  assumes order: "k1 < k2" "k2 < length games"
      and ex1: "examine_game ul (games ! k1) = Inr (Candidate t1 s x1 dir1 a1)"
      and ex2: "examine_game ul (games ! k2) = Inr (Candidate t2 s x2 dir2 a2)"
      and fresh: "JStr s \<notin> existing_slugs"
      and written: "yaml_write (env k1) = WriteOk" "yaml_write (env k2) = WriteOk"
      and accepted:
        "execute_insert (db_accepts (env k1))
           (insert_params t1 s x1 dir1 (config_slug_of s (now (env k1)))) = None"
        "execute_insert (db_accepts (env k2))
           (insert_params t2 s x2 dir2 (config_slug_of s (now (env k2)))) = None"
      and loop: "process_games ul cfgs d existing_slugs env 0 games st0 = (st, None)"
  shows "(\<exists>before between after.
            pending st = pending st0 @ before @
              [insert_params t1 s x1 dir1 (config_slug_of s (now (env k1)))] @ between @
              [insert_params t2 s x2 dir2 (config_slug_of s (now (env k2)))] @ after) \<and>
         (\<exists>sa heroic_config warnings.
            process_games ul cfgs d existing_slugs env 0 (take (Suc k1) games) st0 = (sa, None) \<and>
            get_heroic_game_config a1 (cfgs a1) = Inr (heroic_config, warnings) \<and>
            yaml_files sa (yaml_path_of d (config_slug_of s (now (env k1)))) =
              Some (Dumped (lutris_config_of x1 heroic_config))) \<and>
         (\<exists>sb heroic_config warnings.
            process_games ul cfgs d existing_slugs env 0 (take (Suc k2) games) st0 = (sb, None) \<and>
            get_heroic_game_config a2 (cfgs a2) = Inr (heroic_config, warnings) \<and>
            yaml_files sb (yaml_path_of d (config_slug_of s (now (env k2)))) =
              Some (Dumped (lutris_config_of x2 heroic_config)))"
proof -
  from order have k1: "k1 < length games" by simp
  from process_games_through [OF loop k1] obtain sa1 sb1 where
    pre1: "process_games ul cfgs d existing_slugs env 0 (take k1 games) st0 = (sa1, None)" and
    step1: "process_game ul cfgs d existing_slugs (env k1) (games ! k1) sa1 = (sb1, None)" and
    upto1: "process_games ul cfgs d existing_slugs env 0 (take (Suc k1) games) st0 = (sb1, None)"
    by auto
  from process_games_through [OF loop order(2)] obtain sa2 sb2 where
    pre2: "process_games ul cfgs d existing_slugs env 0 (take k2 games) st0 = (sa2, None)" and
    step2: "process_game ul cfgs d existing_slugs (env k2) (games ! k2) sa2 = (sb2, None)" and
    upto2: "process_games ul cfgs d existing_slugs env 0 (take (Suc k2) games) st0 = (sb2, None)" and
    tail2: "process_games ul cfgs d existing_slugs env (Suc k2) (drop (Suc k2) games) sb2 =
      (st, None)"
    by auto
  note m1 = process_game_migrated [OF ex1 fresh written(1) accepted(1) step1]
  note m2 = process_game_migrated [OF ex2 fresh written(2) accepted(2) step2]
  from order have "take (Suc k1) (take k2 games) = take (Suc k1) games"
    by (simp add: min_def)
  with append_take_drop_id [of "Suc k1" "take k2 games"]
  have cut: "take k2 games = take (Suc k1) games @ drop (Suc k1) (take k2 games)"
    by simp
  from order have len: "length (take (Suc k1) games) = Suc k1" by simp
  from pre2 have "process_games ul cfgs d existing_slugs env 0
      (take (Suc k1) games @ drop (Suc k1) (take k2 games)) st0 = (sa2, None)"
    by (simp only: cut [symmetric])
  with upto1 len have mid: "process_games ul cfgs d existing_slugs env (Suc k1)
      (drop (Suc k1) (take k2 games)) sb1 = (sa2, None)"
    by (simp add: process_games_append)
  from process_games_pending [OF pre1] obtain before where
    b: "pending sa1 = pending st0 @ before" by blast
  from process_games_pending [OF mid] obtain between where
    m: "pending sa2 = pending sb1 @ between" by blast
  from process_games_pending [OF tail2] obtain after where
    a: "pending st = pending sb2 @ after" by blast
  from b m a m1 m2 have "pending st = pending st0 @ before @
              [insert_params t1 s x1 dir1 (config_slug_of s (now (env k1)))] @ between @
              [insert_params t2 s x2 dir2 (config_slug_of s (now (env k2)))] @ after"
    by simp
  then have rows: "\<exists>before between after.
            pending st = pending st0 @ before @
              [insert_params t1 s x1 dir1 (config_slug_of s (now (env k1)))] @ between @
              [insert_params t2 s x2 dir2 (config_slug_of s (now (env k2)))] @ after"
    by (intro exI)
  from m1 obtain hc1 ws1 where
    o1: "get_heroic_game_config a1 (cfgs a1) = Inr (hc1, ws1)" and
    y1: "yaml_files sb1 (yaml_path_of d (config_slug_of s (now (env k1)))) =
      Some (Dumped (lutris_config_of x1 hc1))"
    by auto
  from upto1 o1 y1 have f1: "\<exists>sa heroic_config warnings.
            process_games ul cfgs d existing_slugs env 0 (take (Suc k1) games) st0 = (sa, None) \<and>
            get_heroic_game_config a1 (cfgs a1) = Inr (heroic_config, warnings) \<and>
            yaml_files sa (yaml_path_of d (config_slug_of s (now (env k1)))) =
              Some (Dumped (lutris_config_of x1 heroic_config))"
    by (intro exI [of _ sb1] exI [of _ hc1] exI [of _ ws1]) simp
  from m2 obtain hc2 ws2 where
    o2: "get_heroic_game_config a2 (cfgs a2) = Inr (hc2, ws2)" and
    y2: "yaml_files sb2 (yaml_path_of d (config_slug_of s (now (env k2)))) =
      Some (Dumped (lutris_config_of x2 hc2))"
    by auto
  from upto2 o2 y2 have f2: "\<exists>sb heroic_config warnings.
            process_games ul cfgs d existing_slugs env 0 (take (Suc k2) games) st0 = (sb, None) \<and>
            get_heroic_game_config a2 (cfgs a2) = Inr (heroic_config, warnings) \<and>
            yaml_files sb (yaml_path_of d (config_slug_of s (now (env k2)))) =
              Some (Dumped (lutris_config_of x2 heroic_config))"
    by (intro exI [of _ sb2] exI [of _ hc2] exI [of _ ws2]) simp
  show ?thesis using rows f1 f2 by (intro conjI)
qed

text \<open>An iteration writes and deletes at the path of its own configuration file only.\<close>

lemma migrate_game_files:
  assumes "migrate_game cfgs d existing_slugs e t s x dir a st = (st', r)"
      and "yaml_path_of d (config_slug_of s (now e)) \<noteq> P"
  shows "yaml_files st' P = yaml_files st P"
  using assms
  by (auto simp: migrate_game_def Let_def and_next_def py_print_def
           split: if_splits sum.splits prod.splits write_outcome.splits option.splits exn.splits)

lemma process_game_files:
  assumes step: "process_game ul cfgs d existing_slugs e game st = (st', r)"
      and other: "\<And>t s x dir a. examine_game ul game = Inr (Candidate t s x dir a) \<Longrightarrow>
                    yaml_path_of d (config_slug_of s (now e)) \<noteq> P"
  shows "yaml_files st' P = yaml_files st P"
proof (cases "examine_game ul game")
  case (Inl x)
  with step show ?thesis by (simp add: process_game_def)
next
  case (Inr v)
  show ?thesis
  proof (cases v)
    case (Candidate t s x dir a)
    with Inr have ex: "examine_game ul game = Inr (Candidate t s x dir a)" by simp
    from step have "migrate_game cfgs d existing_slugs e t s x dir a st = (st', r)"
      by (simp add: process_game_candidate [OF ex])
    from migrate_game_files [OF this other [OF ex]] show ?thesis .
  qed (use Inr step in \<open>auto simp: process_game_def and_next_def py_print_def split: if_splits\<close>)
qed

lemma process_games_files:
  assumes "process_games ul cfgs d existing_slugs env i games st = (st', r)"
      and "\<And>j t s x dir a. j < length games \<Longrightarrow>
              examine_game ul (games ! j) = Inr (Candidate t s x dir a) \<Longrightarrow>
              yaml_path_of d (config_slug_of s (now (env (i + j)))) \<noteq> P"
  shows "yaml_files st' P = yaml_files st P"
  using assms
proof (induction games arbitrary: i st)
  case Nil
  then show ?case by simp
next
  case (Cons g games)
  obtain s1 r1 where one: "process_game ul cfgs d existing_slugs (env i) g st = (s1, r1)"
    by (cases "process_game ul cfgs d existing_slugs (env i) g st") auto
  have first: "yaml_files s1 P = yaml_files st P"
  proof (rule process_game_files [OF one])
    fix t s x dir a
    assume "examine_game ul g = Inr (Candidate t s x dir a)"
    with Cons.prems(2) [of 0 t s x dir a]
    show "yaml_path_of d (config_slug_of s (now (env i))) \<noteq> P" by simp
  qed
  show ?case
  proof (cases r1)
    case (Some x)
    with Cons.prems(1) one have "st' = s1" by simp
    with first show ?thesis by simp
  next
    case None
    with Cons.prems(1) one
    have rest: "process_games ul cfgs d existing_slugs env (Suc i) games s1 = (st', r)" by simp
    have "yaml_files st' P = yaml_files s1 P"
    proof (rule Cons.IH [OF rest])
      fix j t s x dir a
      assume "j < length games" "examine_game ul (games ! j) = Inr (Candidate t s x dir a)"
      with Cons.prems(2) [of "Suc j" t s x dir a]
      show "yaml_path_of d (config_slug_of s (now (env (Suc i + j)))) \<noteq> P" by simp
    qed
    with first show ?thesis by simp
  qed
qed

text \<open>A file an iteration wrote is there at the end of the loop when no later iteration has
  the same path.\<close>

lemma process_games_file_kept:
  assumes loop: "process_games ul cfgs d existing_slugs env 0 games st0 = (st, None)"
      and k: "k < length games"
      and upto: "process_games ul cfgs d existing_slugs env 0 (take (Suc k) games) st0 = (sa, None)"
      and later: "\<forall>j t s x dir a. k < j \<and> j < length games \<and>
                    examine_game ul (games ! j) = Inr (Candidate t s x dir a) \<longrightarrow>
                    yaml_path_of d (config_slug_of s (now (env j))) \<noteq> P"
  shows "yaml_files st P = yaml_files sa P"
proof -
  from process_games_through [OF loop k] upto
  have tail: "process_games ul cfgs d existing_slugs env (Suc k) (drop (Suc k) games) sa =
      (st, None)"
    by auto
  show ?thesis
  proof (rule process_games_files [OF tail])
    fix j t s x dir a
    assume j: "j < length (drop (Suc k) games)"
      and ex: "examine_game ul (drop (Suc k) games ! j) = Inr (Candidate t s x dir a)"
    from j have lt: "Suc k + j < length games" by simp
    with ex have "examine_game ul (games ! (Suc k + j)) = Inr (Candidate t s x dir a)"
      by (simp add: add.commute)
    with later lt show "yaml_path_of d (config_slug_of s (now (env (Suc k + j)))) \<noteq> P"
      by (metis less_add_Suc1 add_Suc)
  qed
qed

lemma examine_quest_twin:
  "examine_game (\<lambda>s. s) quest_twin =
     Inr (Candidate (JStr (ustr ''FOO BARS QUEST'')) (ustr ''foo-bars-quest'')
            (JStr (ustr ''/twin/run.exe'')) (JStr (ustr ''/twin'')) (JStr (ustr ''twin'')))"
  by (simp add: quest_twin_def model_eval)

lemma examine_shelved_game: "examine_game (\<lambda>s. s) shelved_game = Inr NotInstalled"
  by (simp add: shelved_game_def examine_game_def and_then_def dict_get_def ustr_def)

lemma ticking_env_start: "ticking_env 0 = fair_env"
  by (simp add: ticking_env_def fair_env_def)

lemma quest_twin_added:
  "process_game (\<lambda>s. s) (\<lambda>a. Stat Absent) 0 {} (ticking_env 2) quest_twin st =
     (st\<lparr>stdout := stdout st @
            [Added (JStr (ustr ''FOO BARS QUEST'')), AddedExecutable (JStr (ustr ''/twin/run.exe'')),
             AddedPrefix (JStr (ustr ''Not found'')),
             AddedConfig (ConfigDir 0, [ustr ''foo-bars-quest-1700000002.yml''])],
         yaml_files := (yaml_files st)((ConfigDir 0, [ustr ''foo-bars-quest-1700000002.yml'']) \<mapsto>
            Dumped \<lparr>game_exe = JStr (ustr ''/twin/run.exe''), game_prefix = JNull,
                    wine_dxvk = JBool False, wine_esync = JBool False, wine_fsync = JBool False\<rparr>),
         pending := pending st @
            [insert_params (JStr (ustr ''FOO BARS QUEST'')) (ustr ''foo-bars-quest'')
               (JStr (ustr ''/twin/run.exe'')) (JStr (ustr ''/twin''))
               (ustr ''foo-bars-quest-1700000002'')],
         added_games := added_games st + 1\<rparr>, None)"
proof -
  have fresh: "JStr (ustr ''foo-bars-quest'') \<notin> {}" by simp
  have opts: "get_heroic_game_config (JStr (ustr ''twin'')) ((\<lambda>a. Stat Absent) (JStr (ustr ''twin''))) =
      Inr ([], [])"
    by (simp add: get_heroic_game_config_def)
  have written: "yaml_write (ticking_env 2) = WriteOk" by (simp add: ticking_env_def)
  have slug: "config_slug_of (ustr ''foo-bars-quest'') (now (ticking_env 2)) =
      ustr ''foo-bars-quest-1700000002''"
    by (simp add: ticking_env_def config_slug_of_def str_of_int_def str_of_nat.simps ustr_def)
  have path: "yaml_path_of 0 (ustr ''foo-bars-quest-1700000002'') =
     (ConfigDir 0, [ustr ''foo-bars-quest-1700000002.yml''])"
    by (simp add: yaml_path_of_def path_parts_def ustr_def)
  have acc: "execute_insert (db_accepts (ticking_env 2))
     (insert_params (JStr (ustr ''FOO BARS QUEST'')) (ustr ''foo-bars-quest'')
        (JStr (ustr ''/twin/run.exe'')) (JStr (ustr ''/twin''))
        (config_slug_of (ustr ''foo-bars-quest'') (now (ticking_env 2)))) = None"
    unfolding slug
    by (simp add: ticking_env_def execute_insert_def insert_params_def ustr_def surrogate_def)
  have pr: "printable (dict_get [] (ustr ''wine_prefix'') JNull)" by (simp add: dict_get_def)
  show ?thesis
    unfolding process_game_candidate [OF examine_quest_twin]
      migrate_game_added [where cfgs = "\<lambda>a. Stat Absent", OF fresh opts written acc pr]
    by (simp add: slug path lutris_config_of_def dict_get_def)
qed

lemma quest_shelved_twin_loop:
  "process_games (\<lambda>s. s) (\<lambda>a. Stat Absent) 0 {} ticking_env 0
      [quest_game, shelved_game, quest_twin]
      \<lparr>yaml_files = Map.empty, pending = [], added_games = 0, skipped_games = 0, stdout = []\<rparr> =
     (\<lparr>yaml_files =
         [(ConfigDir 0, [ustr ''foo-bars-quest-1700000000.yml'']) \<mapsto>
            Dumped \<lparr>game_exe = JStr (ustr ''/games/Foo/foo.exe''), game_prefix = JNull,
                    wine_dxvk = JBool False, wine_esync = JBool False, wine_fsync = JBool False\<rparr>,
          (ConfigDir 0, [ustr ''foo-bars-quest-1700000002.yml'']) \<mapsto>
            Dumped \<lparr>game_exe = JStr (ustr ''/twin/run.exe''), game_prefix = JNull,
                    wine_dxvk = JBool False, wine_esync = JBool False, wine_fsync = JBool False\<rparr>],
       pending =
         [insert_params (JStr quest_title) (ustr ''foo-bars-quest'')
            (JStr (ustr ''/games/Foo/foo.exe'')) (JStr (ustr ''/games/Foo''))
            (ustr ''foo-bars-quest-1700000000''),
          insert_params (JStr (ustr ''FOO BARS QUEST'')) (ustr ''foo-bars-quest'')
            (JStr (ustr ''/twin/run.exe'')) (JStr (ustr ''/twin''))
            (ustr ''foo-bars-quest-1700000002'')],
       added_games = 2, skipped_games = 0,
       stdout =
         [Added (JStr quest_title), AddedExecutable (JStr (ustr ''/games/Foo/foo.exe'')),
          AddedPrefix (JStr (ustr ''Not found'')),
          AddedConfig (ConfigDir 0, [ustr ''foo-bars-quest-1700000000.yml'']),
          Added (JStr (ustr ''FOO BARS QUEST'')), AddedExecutable (JStr (ustr ''/twin/run.exe'')),
          AddedPrefix (JStr (ustr ''Not found'')),
          AddedConfig (ConfigDir 0, [ustr ''foo-bars-quest-1700000002.yml''])]\<rparr>,
      None)"
proof -
  have two: "Suc (Suc 0) = 2" by simp
  have shelved: "process_game (\<lambda>s. s) (\<lambda>a. Stat Absent) 0 {} e shelved_game st = (st, None)"
    for e st
    by (simp add: process_game_def examine_shelved_game)
  show ?thesis
    by (simp add: ticking_env_start quest_game_added shelved two quest_twin_added)
qed

subsection \<open>The claims about the run\<close>




text \<open>
  Claim C3, as amended. When an exception leaves the loop, it is caught at the top level
  and the traceback is printed last; the connection is closed without a commit, so the
  rows inserted so far in the run are dropped and the table holds exactly the rows it
  held before the run. The files written so far stay.
\<close>

theorem exception_in_loop_discards_inserts:
  assumes dir: "find_lutris_config_dir w = (Some d, w1)"
      and lib: "library_json w = Parsed heroic_data"
      and table: "pga_db w = DbTable rows"
      and games: "and_then (py_get heroic_data (ustr ''games'') (JArr [])) py_iter = Inr games"
      and loop: "process_games ul (game_config_json w1) d (set (map row_slug rows)) env 0 games
                   \<lparr>yaml_files = dir_files w1, pending = [], added_games = 0, skipped_games = 0,
                    stdout = console w1\<rparr> = (st, Some x)"
  shows "console (add_heroic_games_to_lutris ul env w) = stdout st @ [Traceback x] \<and>
         pga_db (add_heroic_games_to_lutris ul env w) = DbTable rows \<and>
         dir_files (add_heroic_games_to_lutris ul env w) = yaml_files st"
proof -
  note imp = add_heroic_games_import [OF dir lib table]
  from imp have t1: "pga_db w1 = DbTable rows" by simp
  from import_games_raised [OF t1 games loop] imp t1 show ?thesis by simp
qed

theorem exception_in_loop_discards_inserts_witness:
  "console (add_heroic_games_to_lutris (\<lambda>s. s) (\<lambda>i. fair_env)
              (demo_world [quest_game, broken_game] [])) =
     [Added (JStr quest_title), AddedExecutable (JStr (ustr ''/games/Foo/foo.exe'')),
      AddedPrefix (JStr (ustr ''Not found'')),
      AddedConfig (ConfigDir 0, [ustr ''foo-bars-quest-1700000000.yml'']),
      Traceback AttributeError] \<and>
   pga_db (add_heroic_games_to_lutris (\<lambda>s. s) (\<lambda>i. fair_env)
             (demo_world [quest_game, broken_game] [])) = DbTable [] \<and>
   dir_files (add_heroic_games_to_lutris (\<lambda>s. s) (\<lambda>i. fair_env)
             (demo_world [quest_game, broken_game] []))
     (ConfigDir 0, [ustr ''foo-bars-quest-1700000000.yml'']) =
     Some (Dumped \<lparr>game_exe = JStr (ustr ''/games/Foo/foo.exe''), game_prefix = JNull,
                   wine_dxvk = JBool False, wine_esync = JBool False, wine_fsync = JBool False\<rparr>)"
proof -
  have dir: "find_lutris_config_dir (demo_world [quest_game, broken_game] []) =
      (Some 0, demo_world [quest_game, broken_game] [])"
    by (simp add: find_lutris_config_dir_def demo_world_def)
  have lib: "library_json (demo_world [quest_game, broken_game] []) =
      Parsed (JObj [(ustr ''games'', JArr [quest_game, broken_game])])"
    by (simp add: demo_world_def)
  have table: "pga_db (demo_world [quest_game, broken_game] []) = DbTable []"
    by (simp add: demo_world_def)
  have games: "and_then (py_get (JObj [(ustr ''games'', JArr [quest_game, broken_game])])
      (ustr ''games'') (JArr [])) py_iter = Inr [quest_game, broken_game]"
    by (simp add: dict_get_def and_then_def)
  have loop: "process_games (\<lambda>s. s) (game_config_json (demo_world [quest_game, broken_game] [])) 0
      (set (map row_slug [])) (\<lambda>i. fair_env) 0 [quest_game, broken_game]
      \<lparr>yaml_files = dir_files (demo_world [quest_game, broken_game] []), pending = [],
       added_games = 0, skipped_games = 0,
       stdout = console (demo_world [quest_game, broken_game] [])\<rparr> =
     (\<lparr>yaml_files = [(ConfigDir 0, [ustr ''foo-bars-quest-1700000000.yml'']) \<mapsto>
         Dumped \<lparr>game_exe = JStr (ustr ''/games/Foo/foo.exe''), game_prefix = JNull,
                 wine_dxvk = JBool False, wine_esync = JBool False, wine_fsync = JBool False\<rparr>],
       pending = [insert_params (JStr quest_title) (ustr ''foo-bars-quest'')
          (JStr (ustr ''/games/Foo/foo.exe'')) (JStr (ustr ''/games/Foo''))
          (ustr ''foo-bars-quest-1700000000'')],
       added_games = 1, skipped_games = 0,
       stdout = [Added (JStr quest_title), AddedExecutable (JStr (ustr ''/games/Foo/foo.exe'')),
          AddedPrefix (JStr (ustr ''Not found'')),
          AddedConfig (ConfigDir 0, [ustr ''foo-bars-quest-1700000000.yml''])]\<rparr>,
      Some AttributeError)"
    using quest_then_broken_loop by (simp add: demo_world_def)
  from exception_in_loop_discards_inserts [OF dir lib table games loop]
  show ?thesis by simp
qed

text \<open>
  The claim as the specification states it, that the rows inserted so far are committed,
  fails on a library whose first entry is migrated and whose second entry has a number as
  its title: the loop has inserted one row when \<^verbatim>\<open>create_slug\<close> raises, and the
  table is empty after the run.
\<close>

theorem partial_progress_committed_counterexample:
  "pending (fst (process_games (\<lambda>s. s) (\<lambda>a. Stat Absent) 0 {} (\<lambda>i. fair_env) 0
        [quest_game, broken_game] fresh_state)) =
     [insert_params (JStr quest_title) (ustr ''foo-bars-quest'')
        (JStr (ustr ''/games/Foo/foo.exe'')) (JStr (ustr ''/games/Foo''))
        (ustr ''foo-bars-quest-1700000000'')] \<and>
   snd (process_games (\<lambda>s. s) (\<lambda>a. Stat Absent) 0 {} (\<lambda>i. fair_env) 0
        [quest_game, broken_game] fresh_state) = Some AttributeError \<and>
   pga_db (add_heroic_games_to_lutris (\<lambda>s. s) (\<lambda>i. fair_env)
             (demo_world [quest_game, broken_game] [])) = DbTable []"
proof -
  have run: "pga_db (add_heroic_games_to_lutris (\<lambda>s. s) (\<lambda>i. fair_env)
             (demo_world [quest_game, broken_game] [])) = DbTable []"
    using quest_then_broken_loop
    by (simp add: add_heroic_games_to_lutris_def find_lutris_config_dir_def import_games_def
          Let_def demo_world_def and_then_def dict_get_def)
  from quest_then_broken_loop run show ?thesis by (simp add: fresh_state_def)
qed

text \<open>
  Claim C4. An entry whose title is a string with a slug that is already a slug of the
  catalog is skipped: the loop body writes no configuration file and inserts no row for
  it, whatever else the entry holds; when the entry passes the checks of lines 102 to 127,
  the body prints the skip line, counts the entry as skipped and raises nothing. For the
  run as a whole, the table afterwards is the table before followed by new rows, none of
  which has a slug of an old row: old rows are kept as they are and no second row is
  made for an old slug.
\<close>

theorem existing_slug_is_skipped:
  assumes title: "py_get game (ustr ''title'') JNull = Inr (JStr title)"
      and dup: "JStr (create_slug ul title) \<in> existing_slugs"
      and step: "process_game ul cfgs d existing_slugs e game st = (st', raised)"
      and table: "pga_db w = DbTable rows"
  shows "yaml_files st' = yaml_files st \<and> pending st' = pending st \<and>
         added_games st' = added_games st \<and>
         (\<forall>t s x dir a. examine_game ul game = Inr (Candidate t s x dir a) \<longrightarrow>
            raised = None \<and> skipped_games st' = skipped_games st + 1 \<and>
            stdout st' = stdout st @ [SkipSlugExists (JStr title) (create_slug ul title)]) \<and>
         (\<exists>new. pga_db (add_heroic_games_to_lutris ul env w) = DbTable (rows @ new) \<and>
            (\<forall>r\<in>set new. row_slug r \<notin> set (map row_slug rows)))"
proof -
  have run: "\<exists>new. pga_db (add_heroic_games_to_lutris ul env w) = DbTable (rows @ new) \<and>
            (\<forall>r\<in>set new. row_slug r \<notin> set (map row_slug rows))"
    by (rule add_heroic_games_table [OF table])
  show ?thesis
  proof (cases "examine_game ul game")
    case (Inl x)
    with step have "st' = st" by (simp add: process_game_def)
    with Inl run show ?thesis by simp
  next
    case (Inr v)
    show ?thesis
    proof (cases v)
      case NotInstalled
      with Inr step have "st' = st" by (simp add: process_game_def)
      with Inr NotInstalled run show ?thesis by simp
    next
      case NoTitle
      with Inr step have "st' = st\<lparr>skipped_games := skipped_games st + 1\<rparr>"
        by (simp add: process_game_def)
      with Inr NoTitle run show ?thesis by simp
    next
      case (NoExecutable t)
      with Inr step have "st' = st \<or> st' = st\<lparr>stdout := stdout st @ [SkipNoExecutable t],
          skipped_games := skipped_games st + 1\<rparr>"
        by (auto simp: process_game_def and_next_def py_print_def split: if_splits)
      with Inr NoExecutable run show ?thesis by auto
    next
      case (Candidate t s x dir a)
      with Inr have ex: "examine_game ul game = Inr (Candidate t s x dir a)" by simp
      from examine_game_candidate [OF ex] title
      have ts: "t = JStr title" "s = create_slug ul title" by auto
      from ex step have "migrate_game cfgs d existing_slugs e t s x dir a st = (st', raised)"
        by (simp add: process_game_def)
      with dup ts have "st' = st\<lparr>stdout := stdout st @ [SkipSlugExists (JStr title) (create_slug ul title)],
          skipped_games := skipped_games st + 1\<rparr>" "raised = None"
        by (simp_all add: migrate_game_existing)
      with ex run show ?thesis by simp
    qed
  qed
qed

theorem existing_slug_is_skipped_witness:
  "process_game (\<lambda>s. s) (\<lambda>a. Stat Absent) 0 {row_slug quest_row} fair_env quest_game fresh_state =
     (fresh_state\<lparr>stdout := [SkipSlugExists (JStr quest_title) (ustr ''foo-bars-quest'')],
                  skipped_games := 1\<rparr>, None) \<and>
   pga_db (add_heroic_games_to_lutris (\<lambda>s. s) (\<lambda>i. fair_env) (demo_world [quest_game] [quest_row])) =
     DbTable [quest_row]"
proof -
  obtain st' raised where step:
    "process_game (\<lambda>s. s) (\<lambda>a. Stat Absent) 0 {row_slug quest_row} fair_env quest_game fresh_state =
       (st', raised)"
    by (cases "process_game (\<lambda>s. s) (\<lambda>a. Stat Absent) 0 {row_slug quest_row} fair_env quest_game
                 fresh_state") auto
  have title: "py_get quest_game (ustr ''title'') JNull = Inr (JStr quest_title)"
    by (simp add: quest_game_def dict_get_def ustr_def)
  have dup: "JStr (create_slug (\<lambda>s. s) quest_title) \<in> {row_slug quest_row}"
    by (simp add: model_eval)
  have table: "pga_db (demo_world [quest_game] [quest_row]) = DbTable [quest_row]"
    by (simp add: demo_world_def)
  note fact = existing_slug_is_skipped [OF title dup step table, of "\<lambda>i. fair_env"]
  from fact examine_quest_game
  have "raised = None" "skipped_games st' = 1" "pending st' = []" "added_games st' = 0"
       "yaml_files st' = Map.empty"
       "stdout st' = [SkipSlugExists (JStr quest_title) (create_slug (\<lambda>s. s) quest_title)]"
    by (simp_all add: fresh_state_def)
  moreover have "create_slug (\<lambda>s. s) quest_title = ustr ''foo-bars-quest''"
    by (simp add: model_eval)
  ultimately have "st' = fresh_state\<lparr>stdout := [SkipSlugExists (JStr quest_title) (ustr ''foo-bars-quest'')],
                  skipped_games := 1\<rparr>" "raised = None"
    by (simp_all add: fresh_state_def)
  moreover
  from fact obtain new where new:
    "pga_db (add_heroic_games_to_lutris (\<lambda>s. s) (\<lambda>i. fair_env) (demo_world [quest_game] [quest_row])) =
       DbTable ([quest_row] @ new)" "\<forall>r\<in>set new. row_slug r \<notin> set (map row_slug [quest_row])"
    by blast
  have "pga_db (add_heroic_games_to_lutris (\<lambda>s. s) (\<lambda>i. fair_env) (demo_world [quest_game] [quest_row])) =
     DbTable [quest_row]"
    by (simp add: add_heroic_games_to_lutris_def find_lutris_config_dir_def import_games_def
          process_game_def migrate_game_def Let_def model_eval)
  ultimately show ?thesis using step by simp
qed

text \<open>
  Claim C5. An entry whose \<^verbatim>\<open>is_installed\<close> flag is false or absent is passed over:
  the loop body leaves the files, the inserted rows, the counters and the printed lines as
  they are and raises nothing, and the loop goes on with the next entry.
\<close>

theorem not_installed_is_passed_over:
  assumes "map_of kvs (ustr ''is_installed'') = None \<or>
           map_of kvs (ustr ''is_installed'') = Some (JBool False)"
  shows "process_game ul cfgs d existing_slugs e (JObj kvs) st = (st, None) \<and>
         process_games ul cfgs d existing_slugs env i (JObj kvs # games) st =
           process_games ul cfgs d existing_slugs env (Suc i) games st"
  using process_game_not_installed [OF assms] by simp

theorem not_installed_is_passed_over_witness:
  "process_game (\<lambda>s. s) (\<lambda>a. Stat Absent) 0 {} fair_env shelved_game fresh_state = (fresh_state, None) \<and>
   process_game (\<lambda>s. s) (\<lambda>a. Stat Absent) 0 {} fair_env untagged_game fresh_state = (fresh_state, None) \<and>
   process_games (\<lambda>s. s) (\<lambda>a. Stat Absent) 0 {} (\<lambda>i. fair_env) 0 [shelved_game, untagged_game] fresh_state =
     (fresh_state, None)"
proof -
  have a: "map_of [(ustr ''app_name'', JStr (ustr ''shelved'')),
           (ustr ''title'', JStr (ustr ''Shelved'')),
           (ustr ''is_installed'', JBool False),
           (ustr ''install'', JObj [(ustr ''executable'', JStr (ustr ''/games/s/s.exe''))])]
           (ustr ''is_installed'') = None \<or>
        map_of [(ustr ''app_name'', JStr (ustr ''shelved'')),
           (ustr ''title'', JStr (ustr ''Shelved'')),
           (ustr ''is_installed'', JBool False),
           (ustr ''install'', JObj [(ustr ''executable'', JStr (ustr ''/games/s/s.exe''))])]
           (ustr ''is_installed'') = Some (JBool False)"
    by (simp add: ustr_def)
  have b: "map_of [(ustr ''app_name'', JStr (ustr ''untagged'')),
           (ustr ''title'', JStr (ustr ''Untagged'')),
           (ustr ''install'', JObj [(ustr ''executable'', JStr (ustr ''/games/u/u.exe''))])]
           (ustr ''is_installed'') = None \<or>
        map_of [(ustr ''app_name'', JStr (ustr ''untagged'')),
           (ustr ''title'', JStr (ustr ''Untagged'')),
           (ustr ''install'', JObj [(ustr ''executable'', JStr (ustr ''/games/u/u.exe''))])]
           (ustr ''is_installed'') = Some (JBool False)"
    by (simp add: ustr_def)
  show ?thesis
    unfolding shelved_game_def untagged_game_def
    using not_installed_is_passed_over [OF a] not_installed_is_passed_over [OF b]
    by simp
qed

text \<open>
  Claim C6. For an entry whose install information has the executable path \<open>p\<close> (a
  string) and no install directory, every row the loop body inserts holds \<open>p\<close> as its
  executable and \<^verbatim>\<open>os.path.dirname(p)\<close> as its directory. Such a row is inserted
  when the entry is installed, has a non-empty title with a new slug,
  \<^verbatim>\<open>get_heroic_game_config\<close> returns, the file is written and the insert is accepted
  (which includes that every parameter can be bound), whatever the lines printed afterwards
  do.

  The directory name is the parent directory: when \<open>p\<close> is a directory \<open>dir\<close>
  (not empty, not ending in a slash), one or more slashes and a name without a slash, it
  is \<open>dir\<close>; when \<open>p\<close> is one or more slashes and a name without a slash, it is
  these slashes (the root); when \<open>p\<close> has no slash, it is the empty string. The
  directory name of \<^verbatim>\<open>/games/Foo/foo.exe\<close> is \<^verbatim>\<open>/games/Foo\<close>.
\<close>

theorem directory_falls_back_to_dirname:
  assumes install: "py_get game (ustr ''install'') (JObj []) = Inr (JObj install_info)"
      and exe: "dict_get install_info (ustr ''executable'') JNull = JStr p"
      and nodir: "\<not> truthy (dict_get install_info (ustr ''path'') JNull)"
      and step: "process_game ul cfgs d existing_slugs e game st = (st', raised)"
  shows "(pending st' = pending st \<or>
          (\<exists>r. pending st' = pending st @ [r] \<and> row_executable r = JStr p \<and>
                row_directory r = JStr (dirname p))) \<and>
         (\<forall>v title a heroic_config warnings.
            py_get game (ustr ''is_installed'') (JBool False) = Inr v \<and> truthy v \<and>
            py_get game (ustr ''title'') JNull = Inr (JStr title) \<and> title \<noteq> [] \<and> p \<noteq> [] \<and>
            py_get game (ustr ''app_name'') JNull = Inr a \<and>
            JStr (create_slug ul title) \<notin> existing_slugs \<and>
            get_heroic_game_config a (cfgs a) = Inr (heroic_config, warnings) \<and>
            yaml_write e = WriteOk \<and>
            execute_insert (db_accepts e)
              (insert_params (JStr title) (create_slug ul title) (JStr p) (JStr (dirname p))
                 (config_slug_of (create_slug ul title) (now e))) = None \<longrightarrow>
            pending st' = pending st @
              [insert_params (JStr title) (create_slug ul title) (JStr p) (JStr (dirname p))
                 (config_slug_of (create_slug ul title) (now e))]) \<and>
         (\<forall>dir n name.
            p = dir @ replicate (Suc n) 47 @ name \<and> 47 \<notin> set name \<and> dir \<noteq> [] \<and> last dir \<noteq> 47 \<longrightarrow>
            dirname p = dir) \<and>
         (\<forall>n name. p = replicate (Suc n) 47 @ name \<and> 47 \<notin> set name \<longrightarrow>
            dirname p = replicate (Suc n) 47) \<and>
         (47 \<notin> set p \<longrightarrow> dirname p = []) \<and>
         dirname (ustr ''/games/Foo/foo.exe'') = ustr ''/games/Foo''"
proof (intro conjI allI impI)
  show "pending st' = pending st \<or>
          (\<exists>r. pending st' = pending st @ [r] \<and> row_executable r = JStr p \<and>
                row_directory r = JStr (dirname p))"
  proof (cases "examine_game ul game")
    case (Inl x)
    with step show ?thesis by (simp add: process_game_def)
  next
    case (Inr v)
    show ?thesis
    proof (cases v)
      case (Candidate t s x dir a)
      with Inr have ex: "examine_game ul game = Inr (Candidate t s x dir a)" by simp
      from examine_game_install [OF ex install exe nodir]
      have xd: "x = JStr p" "dir = JStr (dirname p)" by simp_all
      from step have "migrate_game cfgs d existing_slugs e t s x dir a st = (st', raised)"
        by (simp add: process_game_candidate [OF ex])
      from migrate_game_rows [OF this] xd show ?thesis
        by (auto simp: insert_params_def)
    qed (use Inr step in \<open>auto simp: process_game_def and_next_def py_print_def split: if_splits\<close>)
  qed
next
  fix v title a heroic_config warnings
  assume h: "py_get game (ustr ''is_installed'') (JBool False) = Inr v \<and> truthy v \<and>
            py_get game (ustr ''title'') JNull = Inr (JStr title) \<and> title \<noteq> [] \<and> p \<noteq> [] \<and>
            py_get game (ustr ''app_name'') JNull = Inr a \<and>
            JStr (create_slug ul title) \<notin> existing_slugs \<and>
            get_heroic_game_config a (cfgs a) = Inr (heroic_config, warnings) \<and>
            yaml_write e = WriteOk \<and>
            execute_insert (db_accepts e)
              (insert_params (JStr title) (create_slug ul title) (JStr p) (JStr (dirname p))
                 (config_slug_of (create_slug ul title) (now e))) = None"
  then have ex: "examine_game ul game =
      Inr (Candidate (JStr title) (create_slug ul title) (JStr p) (JStr (dirname p)) a)"
    using install exe nodir by (intro examine_game_wellformed) auto
  from h have fresh: "JStr (create_slug ul title) \<notin> existing_slugs"
    and opts: "get_heroic_game_config a (cfgs a) = Inr (heroic_config, warnings)"
    and written: "yaml_write e = WriteOk"
    and ok: "execute_insert (db_accepts e)
      (insert_params (JStr title) (create_slug ul title) (JStr p) (JStr (dirname p))
         (config_slug_of (create_slug ul title) (now e))) = None"
    by simp_all
  from step have "migrate_game cfgs d existing_slugs e (JStr title) (create_slug ul title) (JStr p)
      (JStr (dirname p)) a st = (st', raised)"
    by (simp add: process_game_candidate [OF ex])
  from migrate_game_inserted [where cfgs = cfgs and app_name = a, OF fresh opts written ok this]
  show "pending st' = pending st @
              [insert_params (JStr title) (create_slug ul title) (JStr p) (JStr (dirname p))
                 (config_slug_of (create_slug ul title) (now e))]"
    by simp
next
  fix dir n name
  assume "p = dir @ replicate (Suc n) 47 @ name \<and> 47 \<notin> set name \<and> dir \<noteq> [] \<and> last dir \<noteq> 47"
  then show "dirname p = dir" using dirname_parent [of name dir n] by blast
next
  fix n name
  assume "p = replicate (Suc n) 47 @ name \<and> 47 \<notin> set name"
  then show "dirname p = replicate (Suc n) 47" using dirname_root [of name n] by blast
next
  assume "47 \<notin> set p"
  then show "dirname p = []" by (rule dirname_bare)
next
  show "dirname (ustr ''/games/Foo/foo.exe'') = ustr ''/games/Foo''"
    by (simp add: model_eval)
qed

theorem directory_falls_back_to_dirname_witness:
  "pending (fst (process_game (\<lambda>s. s) (\<lambda>a. Stat Absent) 0 {} fair_env quest_game fresh_state)) =
     [insert_params (JStr quest_title) (ustr ''foo-bars-quest'')
        (JStr (ustr ''/games/Foo/foo.exe'')) (JStr (ustr ''/games/Foo''))
        (ustr ''foo-bars-quest-1700000000'')] \<and>
   dirname (ustr ''/games/Foo/foo.exe'') = ustr ''/games/Foo''"
proof -
  obtain st' raised where step:
    "process_game (\<lambda>s. s) (\<lambda>a. Stat Absent) 0 {} fair_env quest_game fresh_state = (st', raised)"
    by (cases "process_game (\<lambda>s. s) (\<lambda>a. Stat Absent) 0 {} fair_env quest_game fresh_state") auto
  have install: "py_get quest_game (ustr ''install'') (JObj []) =
      Inr (JObj [(ustr ''executable'', JStr (ustr ''/games/Foo/foo.exe''))])"
    by (simp add: quest_game_def dict_get_def ustr_def)
  have exe: "dict_get [(ustr ''executable'', JStr (ustr ''/games/Foo/foo.exe''))]
      (ustr ''executable'') JNull = JStr (ustr ''/games/Foo/foo.exe'')"
    by (simp add: dict_get_def)
  have nodir: "\<not> truthy (dict_get [(ustr ''executable'', JStr (ustr ''/games/Foo/foo.exe''))]
      (ustr ''path'') JNull)"
    by (simp add: dict_get_def ustr_def)
  have vals: "create_slug (\<lambda>s. s) quest_title = ustr ''foo-bars-quest''"
    "config_slug_of (ustr ''foo-bars-quest'') (now fair_env) = ustr ''foo-bars-quest-1700000000''"
    "dirname (ustr ''/games/Foo/foo.exe'') = ustr ''/games/Foo''"
    by (simp_all add: model_eval)
  have rest: "py_get quest_game (ustr ''is_installed'') (JBool False) = Inr (JBool True) \<and>
      truthy (JBool True) \<and>
      py_get quest_game (ustr ''title'') JNull = Inr (JStr quest_title) \<and> quest_title \<noteq> [] \<and>
      ustr ''/games/Foo/foo.exe'' \<noteq> [] \<and>
      py_get quest_game (ustr ''app_name'') JNull = Inr (JStr (ustr ''quest'')) \<and>
      JStr (create_slug (\<lambda>s. s) quest_title) \<notin> {} \<and>
      get_heroic_game_config (JStr (ustr ''quest'')) ((\<lambda>a. Stat Absent) (JStr (ustr ''quest''))) =
        Inr ([], []) \<and>
      yaml_write fair_env = WriteOk \<and>
      execute_insert (db_accepts fair_env)
        (insert_params (JStr quest_title) (create_slug (\<lambda>s. s) quest_title)
           (JStr (ustr ''/games/Foo/foo.exe'')) (JStr (dirname (ustr ''/games/Foo/foo.exe'')))
           (config_slug_of (create_slug (\<lambda>s. s) quest_title) (now fair_env))) = None"
    unfolding vals
    by (simp add: quest_game_def dict_get_def ustr_def quest_title_def fair_env_def
          get_heroic_game_config_def execute_insert_def insert_params_def surrogate_def)
  from directory_falls_back_to_dirname [OF install exe nodir step] rest vals step
  show ?thesis by (simp add: fresh_state_def)
qed

text \<open>
  Claim C7. \<^verbatim>\<open>main\<close> prints the banner and the prompt before anything else, whatever
  is typed. When the lowercased answer is not \<^verbatim>\<open>y\<close>, it prints that the import was
  cancelled and returns: no file is written, the table and the configuration directories
  are as before, and the database was not opened.
\<close>

theorem declined_prompt_changes_nothing:
  assumes "str_lower ul typed \<noteq> ustr ''y''"
  shows "main ul env typed w = w\<lparr>console := console w @ [Banner, Prompt, Cancelled]\<rparr> \<and>
         dir_files (main ul env typed w) = dir_files w \<and>
         pga_db (main ul env typed w) = pga_db w \<and>
         lutris_dirs (main ul env typed w) = lutris_dirs w \<and>
         db_connects (main ul env typed w) = db_connects w \<and>
         (\<exists>ms. console (main ul env any_typed w) = console w @ [Banner, Prompt] @ ms)"
proof -
  have first: "\<exists>ms. console (main ul env any_typed w) = console w @ [Banner, Prompt] @ ms"
  proof (cases "str_lower ul any_typed = ustr ''y''")
    case True
    from add_heroic_games_console [of ul env "w\<lparr>console := console w @ [Banner, Prompt]\<rparr>"]
    obtain ms where "console (add_heroic_games_to_lutris ul env
        (w\<lparr>console := console w @ [Banner, Prompt]\<rparr>)) = console w @ [Banner, Prompt] @ ms"
      by auto
    with True show ?thesis by (simp add: main_def Let_def)
  next
    case False
    then show ?thesis by (simp add: main_def Let_def)
  qed
  from assms first show ?thesis by (simp add: main_def Let_def)
qed

theorem declined_prompt_changes_nothing_witness:
  "main (\<lambda>s. s) (\<lambda>i. fair_env) (ustr ''N'') (demo_world [quest_game] []) =
     (demo_world [quest_game] [])\<lparr>console := [Banner, Prompt, Cancelled]\<rparr> \<and>
   main (\<lambda>s. s) (\<lambda>i. fair_env) [] (demo_world [quest_game] []) =
     (demo_world [quest_game] [])\<lparr>console := [Banner, Prompt, Cancelled]\<rparr> \<and>
   main (\<lambda>s. s) (\<lambda>i. fair_env) (ustr ''yes'') (demo_world [quest_game] []) =
     (demo_world [quest_game] [])\<lparr>console := [Banner, Prompt, Cancelled]\<rparr>"
proof -
  have a: "str_lower (\<lambda>s. s) (ustr ''N'') \<noteq> ustr ''y''"
    and b: "str_lower (\<lambda>s. s) [] \<noteq> ustr ''y''"
    and c: "str_lower (\<lambda>s. s) (ustr ''yes'') \<noteq> ustr ''y''"
    by (simp_all add: slug_eval)
  have d: "console (demo_world [quest_game] []) = []" by (simp add: demo_world_def)
  from declined_prompt_changes_nothing [OF a] declined_prompt_changes_nothing [OF b]
    declined_prompt_changes_nothing [OF c] d
  show ?thesis by simp
qed




text \<open>
  Claim C9. The set of existing slugs is read once, before the loop, and the loop never
  adds to it. So when two entries of the library, anywhere in it, pass the checks with one
  and the same slug, the slug is not in the catalog, both files are written, both inserts
  are accepted and the loop ends without an exception, both entries are migrated. The
  table ends the run with the old rows and, among the new ones, the rows of the two
  entries in their order, both with that slug. Each entry's configuration file holds its
  configuration once its iteration is over, and still does at the end of the run when no
  later entry has a configuration file of the same path.
\<close>

theorem equal_slugs_in_one_run_both_migrated:
  assumes dir: "find_lutris_config_dir w = (Some d, w1)"
      and lib: "library_json w = Parsed heroic_data"
      and table: "pga_db w = DbTable rows"
      and games: "and_then (py_get heroic_data (ustr ''games'') (JArr [])) py_iter = Inr games"
      and order: "k1 < k2" "k2 < length games"
      and ex1: "examine_game ul (games ! k1) = Inr (Candidate title1 game_slug exe1 dir1 app1)"
      and ex2: "examine_game ul (games ! k2) = Inr (Candidate title2 game_slug exe2 dir2 app2)"
      and fresh: "JStr game_slug \<notin> set (map row_slug rows)"
      and written: "yaml_write (env k1) = WriteOk" "yaml_write (env k2) = WriteOk"
      and accepted:
        "execute_insert (db_accepts (env k1))
           (insert_params title1 game_slug exe1 dir1 (config_slug_of game_slug (now (env k1)))) = None"
        "execute_insert (db_accepts (env k2))
           (insert_params title2 game_slug exe2 dir2 (config_slug_of game_slug (now (env k2)))) = None"
      and loop: "process_games ul (game_config_json w1) d (set (map row_slug rows)) env 0 games
                   \<lparr>yaml_files = dir_files w1, pending = [], added_games = 0, skipped_games = 0,
                    stdout = console w1\<rparr> = (st, None)"
  shows "(\<exists>before between after.
            pga_db (add_heroic_games_to_lutris ul env w) =
              DbTable (rows @ before @
                [insert_params title1 game_slug exe1 dir1 (config_slug_of game_slug (now (env k1)))] @
                between @
                [insert_params title2 game_slug exe2 dir2 (config_slug_of game_slug (now (env k2)))] @
                after)) \<and>
         row_slug (insert_params title1 game_slug exe1 dir1
                     (config_slug_of game_slug (now (env k1)))) = JStr game_slug \<and>
         row_slug (insert_params title2 game_slug exe2 dir2
                     (config_slug_of game_slug (now (env k2)))) = JStr game_slug \<and>
         (\<exists>sa heroic_config warnings.
            process_games ul (game_config_json w1) d (set (map row_slug rows)) env 0
              (take (Suc k1) games)
              \<lparr>yaml_files = dir_files w1, pending = [], added_games = 0, skipped_games = 0,
               stdout = console w1\<rparr> = (sa, None) \<and>
            get_heroic_game_config app1 (game_config_json w1 app1) = Inr (heroic_config, warnings) \<and>
            yaml_files sa (yaml_path_of d (config_slug_of game_slug (now (env k1)))) =
              Some (Dumped (lutris_config_of exe1 heroic_config)) \<and>
            ((\<forall>j t s x dr a. k1 < j \<and> j < length games \<and>
                 examine_game ul (games ! j) = Inr (Candidate t s x dr a) \<longrightarrow>
                 yaml_path_of d (config_slug_of s (now (env j))) \<noteq>
                   yaml_path_of d (config_slug_of game_slug (now (env k1)))) \<longrightarrow>
             dir_files (add_heroic_games_to_lutris ul env w)
               (yaml_path_of d (config_slug_of game_slug (now (env k1)))) =
               Some (Dumped (lutris_config_of exe1 heroic_config)))) \<and>
         (\<exists>sb heroic_config warnings.
            process_games ul (game_config_json w1) d (set (map row_slug rows)) env 0
              (take (Suc k2) games)
              \<lparr>yaml_files = dir_files w1, pending = [], added_games = 0, skipped_games = 0,
               stdout = console w1\<rparr> = (sb, None) \<and>
            get_heroic_game_config app2 (game_config_json w1 app2) = Inr (heroic_config, warnings) \<and>
            yaml_files sb (yaml_path_of d (config_slug_of game_slug (now (env k2)))) =
              Some (Dumped (lutris_config_of exe2 heroic_config)) \<and>
            ((\<forall>j t s x dr a. k2 < j \<and> j < length games \<and>
                 examine_game ul (games ! j) = Inr (Candidate t s x dr a) \<longrightarrow>
                 yaml_path_of d (config_slug_of s (now (env j))) \<noteq>
                   yaml_path_of d (config_slug_of game_slug (now (env k2)))) \<longrightarrow>
             dir_files (add_heroic_games_to_lutris ul env w)
               (yaml_path_of d (config_slug_of game_slug (now (env k2)))) =
               Some (Dumped (lutris_config_of exe2 heroic_config))))"
proof -
  let ?st0 = "\<lparr>yaml_files = dir_files w1, pending = [], added_games = 0, skipped_games = 0,
               stdout = console w1\<rparr>"
  let ?P1 = "yaml_path_of d (config_slug_of game_slug (now (env k1)))"
  let ?P2 = "yaml_path_of d (config_slug_of game_slug (now (env k2)))"
  note imp = add_heroic_games_import [OF dir lib table]
  from imp have t1: "pga_db w1 = DbTable rows" by simp
  from order have k1: "k1 < length games" by simp
  note two = process_games_two_entries
    [OF order ex1 ex2 fresh written accepted loop]
  from import_games_completed [OF t1 games loop] imp
  have final: "pga_db (add_heroic_games_to_lutris ul env w) = DbTable (rows @ pending st)"
    "dir_files (add_heroic_games_to_lutris ul env w) = yaml_files st"
    by simp_all
  from two obtain before between after where
    p: "pending st = before @
          [insert_params title1 game_slug exe1 dir1 (config_slug_of game_slug (now (env k1)))] @
          between @
          [insert_params title2 game_slug exe2 dir2 (config_slug_of game_slug (now (env k2)))] @
          after"
    by auto
  from final(1) p
  have "pga_db (add_heroic_games_to_lutris ul env w) =
              DbTable (rows @ before @
                [insert_params title1 game_slug exe1 dir1 (config_slug_of game_slug (now (env k1)))] @
                between @
                [insert_params title2 game_slug exe2 dir2 (config_slug_of game_slug (now (env k2)))] @
                after)"
    by simp
  then have rows: "\<exists>before between after.
            pga_db (add_heroic_games_to_lutris ul env w) =
              DbTable (rows @ before @
                [insert_params title1 game_slug exe1 dir1 (config_slug_of game_slug (now (env k1)))] @
                between @
                [insert_params title2 game_slug exe2 dir2 (config_slug_of game_slug (now (env k2)))] @
                after)"
    by (intro exI)
  have slugs: "row_slug (insert_params title1 game_slug exe1 dir1
                     (config_slug_of game_slug (now (env k1)))) = JStr game_slug"
    "row_slug (insert_params title2 game_slug exe2 dir2
                     (config_slug_of game_slug (now (env k2)))) = JStr game_slug"
    by (simp_all add: insert_params_def)
  from two obtain sa hc1 ws1 where
    u1: "process_games ul (game_config_json w1) d (set (map row_slug rows)) env 0
           (take (Suc k1) games) ?st0 = (sa, None)" and
    o1: "get_heroic_game_config app1 (game_config_json w1 app1) = Inr (hc1, ws1)" and
    y1: "yaml_files sa ?P1 = Some (Dumped (lutris_config_of exe1 hc1))"
    by auto
  have e1: "(\<forall>j t s x dr a. k1 < j \<and> j < length games \<and>
                 examine_game ul (games ! j) = Inr (Candidate t s x dr a) \<longrightarrow>
                 yaml_path_of d (config_slug_of s (now (env j))) \<noteq> ?P1) \<longrightarrow>
             dir_files (add_heroic_games_to_lutris ul env w) ?P1 =
               Some (Dumped (lutris_config_of exe1 hc1))"
  proof
    assume "\<forall>j t s x dr a. k1 < j \<and> j < length games \<and>
                 examine_game ul (games ! j) = Inr (Candidate t s x dr a) \<longrightarrow>
                 yaml_path_of d (config_slug_of s (now (env j))) \<noteq> ?P1"
    from process_games_file_kept [OF loop k1 u1 this] y1 final(2)
    show "dir_files (add_heroic_games_to_lutris ul env w) ?P1 =
               Some (Dumped (lutris_config_of exe1 hc1))"
      by simp
  qed
  from u1 o1 y1 e1 have f1: "\<exists>sa heroic_config warnings.
            process_games ul (game_config_json w1) d (set (map row_slug rows)) env 0
              (take (Suc k1) games) ?st0 = (sa, None) \<and>
            get_heroic_game_config app1 (game_config_json w1 app1) = Inr (heroic_config, warnings) \<and>
            yaml_files sa ?P1 = Some (Dumped (lutris_config_of exe1 heroic_config)) \<and>
            ((\<forall>j t s x dr a. k1 < j \<and> j < length games \<and>
                 examine_game ul (games ! j) = Inr (Candidate t s x dr a) \<longrightarrow>
                 yaml_path_of d (config_slug_of s (now (env j))) \<noteq> ?P1) \<longrightarrow>
             dir_files (add_heroic_games_to_lutris ul env w) ?P1 =
               Some (Dumped (lutris_config_of exe1 heroic_config)))"
    by (intro exI [of _ sa] exI [of _ hc1] exI [of _ ws1] conjI)
  from two obtain sb hc2 ws2 where
    u2: "process_games ul (game_config_json w1) d (set (map row_slug rows)) env 0
           (take (Suc k2) games) ?st0 = (sb, None)" and
    o2: "get_heroic_game_config app2 (game_config_json w1 app2) = Inr (hc2, ws2)" and
    y2: "yaml_files sb ?P2 = Some (Dumped (lutris_config_of exe2 hc2))"
    by auto
  have e2: "(\<forall>j t s x dr a. k2 < j \<and> j < length games \<and>
                 examine_game ul (games ! j) = Inr (Candidate t s x dr a) \<longrightarrow>
                 yaml_path_of d (config_slug_of s (now (env j))) \<noteq> ?P2) \<longrightarrow>
             dir_files (add_heroic_games_to_lutris ul env w) ?P2 =
               Some (Dumped (lutris_config_of exe2 hc2))"
  proof
    assume "\<forall>j t s x dr a. k2 < j \<and> j < length games \<and>
                 examine_game ul (games ! j) = Inr (Candidate t s x dr a) \<longrightarrow>
                 yaml_path_of d (config_slug_of s (now (env j))) \<noteq> ?P2"
    from process_games_file_kept [OF loop order(2) u2 this] y2 final(2)
    show "dir_files (add_heroic_games_to_lutris ul env w) ?P2 =
               Some (Dumped (lutris_config_of exe2 hc2))"
      by simp
  qed
  from u2 o2 y2 e2 have f2: "\<exists>sb heroic_config warnings.
            process_games ul (game_config_json w1) d (set (map row_slug rows)) env 0
              (take (Suc k2) games) ?st0 = (sb, None) \<and>
            get_heroic_game_config app2 (game_config_json w1 app2) = Inr (heroic_config, warnings) \<and>
            yaml_files sb ?P2 = Some (Dumped (lutris_config_of exe2 heroic_config)) \<and>
            ((\<forall>j t s x dr a. k2 < j \<and> j < length games \<and>
                 examine_game ul (games ! j) = Inr (Candidate t s x dr a) \<longrightarrow>
                 yaml_path_of d (config_slug_of s (now (env j))) \<noteq> ?P2) \<longrightarrow>
             dir_files (add_heroic_games_to_lutris ul env w) ?P2 =
               Some (Dumped (lutris_config_of exe2 heroic_config)))"
    by (intro exI [of _ sb] exI [of _ hc2] exI [of _ ws2] conjI)
  show ?thesis using rows slugs f1 f2 by (intro conjI)
qed

theorem equal_slugs_in_one_run_both_migrated_witness:
  "pga_db (add_heroic_games_to_lutris (\<lambda>s. s) ticking_env
             (demo_world [quest_game, shelved_game, quest_twin] [])) =
     DbTable
       [insert_params (JStr quest_title) (ustr ''foo-bars-quest'')
          (JStr (ustr ''/games/Foo/foo.exe'')) (JStr (ustr ''/games/Foo''))
          (ustr ''foo-bars-quest-1700000000''),
        insert_params (JStr (ustr ''FOO BARS QUEST'')) (ustr ''foo-bars-quest'')
          (JStr (ustr ''/twin/run.exe'')) (JStr (ustr ''/twin''))
          (ustr ''foo-bars-quest-1700000002'')] \<and>
   dir_files (add_heroic_games_to_lutris (\<lambda>s. s) ticking_env
             (demo_world [quest_game, shelved_game, quest_twin] []))
     (ConfigDir 0, [ustr ''foo-bars-quest-1700000000.yml'']) =
     Some (Dumped \<lparr>game_exe = JStr (ustr ''/games/Foo/foo.exe''), game_prefix = JNull,
                   wine_dxvk = JBool False, wine_esync = JBool False, wine_fsync = JBool False\<rparr>) \<and>
   dir_files (add_heroic_games_to_lutris (\<lambda>s. s) ticking_env
             (demo_world [quest_game, shelved_game, quest_twin] []))
     (ConfigDir 0, [ustr ''foo-bars-quest-1700000002.yml'']) =
     Some (Dumped \<lparr>game_exe = JStr (ustr ''/twin/run.exe''), game_prefix = JNull,
                   wine_dxvk = JBool False, wine_esync = JBool False, wine_fsync = JBool False\<rparr>)"
proof -
  let ?w = "demo_world [quest_game, shelved_game, quest_twin] []"
  have dir: "find_lutris_config_dir ?w = (Some 0, ?w)"
    by (simp add: find_lutris_config_dir_def demo_world_def)
  have lib: "library_json ?w =
      Parsed (JObj [(ustr ''games'', JArr [quest_game, shelved_game, quest_twin])])"
    by (simp add: demo_world_def)
  have table: "pga_db ?w = DbTable []" by (simp add: demo_world_def)
  have games: "and_then (py_get (JObj [(ustr ''games'', JArr [quest_game, shelved_game, quest_twin])])
      (ustr ''games'') (JArr [])) py_iter = Inr [quest_game, shelved_game, quest_twin]"
    by (simp add: dict_get_def and_then_def)
  have order: "(0::nat) < 2" "2 < length [quest_game, shelved_game, quest_twin]" by simp_all
  have ex1: "examine_game (\<lambda>s. s) ([quest_game, shelved_game, quest_twin] ! 0) =
      Inr (Candidate (JStr quest_title) (ustr ''foo-bars-quest'')
            (JStr (ustr ''/games/Foo/foo.exe'')) (JStr (ustr ''/games/Foo''))
            (JStr (ustr ''quest'')))"
    by (simp add: examine_quest_game)
  have ex2: "examine_game (\<lambda>s. s) ([quest_game, shelved_game, quest_twin] ! 2) =
      Inr (Candidate (JStr (ustr ''FOO BARS QUEST'')) (ustr ''foo-bars-quest'')
            (JStr (ustr ''/twin/run.exe'')) (JStr (ustr ''/twin'')) (JStr (ustr ''twin'')))"
    by (simp add: examine_quest_twin)
  have fresh: "JStr (ustr ''foo-bars-quest'') \<notin> set (map row_slug [])" by simp
  have written: "yaml_write (ticking_env 0) = WriteOk" "yaml_write (ticking_env 2) = WriteOk"
    by (simp_all add: ticking_env_def)
  have slug0: "config_slug_of (ustr ''foo-bars-quest'') (now (ticking_env 0)) =
      ustr ''foo-bars-quest-1700000000''"
    by (simp add: ticking_env_def quest_config_slug)
  have slug2: "config_slug_of (ustr ''foo-bars-quest'') (now (ticking_env 2)) =
      ustr ''foo-bars-quest-1700000002''"
    by (simp add: ticking_env_def config_slug_of_def str_of_int_def str_of_nat.simps ustr_def)
  have accepted:
    "execute_insert (db_accepts (ticking_env 0))
       (insert_params (JStr quest_title) (ustr ''foo-bars-quest'')
          (JStr (ustr ''/games/Foo/foo.exe'')) (JStr (ustr ''/games/Foo''))
          (config_slug_of (ustr ''foo-bars-quest'') (now (ticking_env 0)))) = None"
    "execute_insert (db_accepts (ticking_env 2))
       (insert_params (JStr (ustr ''FOO BARS QUEST'')) (ustr ''foo-bars-quest'')
          (JStr (ustr ''/twin/run.exe'')) (JStr (ustr ''/twin''))
          (config_slug_of (ustr ''foo-bars-quest'') (now (ticking_env 2)))) = None"
    unfolding slug0 slug2
    by (simp_all add: ticking_env_def execute_insert_def insert_params_def quest_title_def
          ustr_def surrogate_def)
  have loop: "process_games (\<lambda>s. s) (game_config_json ?w) 0 (set (map row_slug [])) ticking_env 0
      [quest_game, shelved_game, quest_twin]
      \<lparr>yaml_files = dir_files ?w, pending = [], added_games = 0, skipped_games = 0,
       stdout = console ?w\<rparr> =
     (\<lparr>yaml_files =
         [(ConfigDir 0, [ustr ''foo-bars-quest-1700000000.yml'']) \<mapsto>
            Dumped \<lparr>game_exe = JStr (ustr ''/games/Foo/foo.exe''), game_prefix = JNull,
                    wine_dxvk = JBool False, wine_esync = JBool False, wine_fsync = JBool False\<rparr>,
          (ConfigDir 0, [ustr ''foo-bars-quest-1700000002.yml'']) \<mapsto>
            Dumped \<lparr>game_exe = JStr (ustr ''/twin/run.exe''), game_prefix = JNull,
                    wine_dxvk = JBool False, wine_esync = JBool False, wine_fsync = JBool False\<rparr>],
       pending =
         [insert_params (JStr quest_title) (ustr ''foo-bars-quest'')
            (JStr (ustr ''/games/Foo/foo.exe'')) (JStr (ustr ''/games/Foo''))
            (ustr ''foo-bars-quest-1700000000''),
          insert_params (JStr (ustr ''FOO BARS QUEST'')) (ustr ''foo-bars-quest'')
            (JStr (ustr ''/twin/run.exe'')) (JStr (ustr ''/twin''))
            (ustr ''foo-bars-quest-1700000002'')],
       added_games = 2, skipped_games = 0,
       stdout =
         [Added (JStr quest_title), AddedExecutable (JStr (ustr ''/games/Foo/foo.exe'')),
          AddedPrefix (JStr (ustr ''Not found'')),
          AddedConfig (ConfigDir 0, [ustr ''foo-bars-quest-1700000000.yml'']),
          Added (JStr (ustr ''FOO BARS QUEST'')), AddedExecutable (JStr (ustr ''/twin/run.exe'')),
          AddedPrefix (JStr (ustr ''Not found'')),
          AddedConfig (ConfigDir 0, [ustr ''foo-bars-quest-1700000002.yml''])]\<rparr>,
      None)"
    using quest_shelved_twin_loop by (simp add: demo_world_def)
  note fact = equal_slugs_in_one_run_both_migrated
    [OF dir lib table games order ex1 ex2 fresh written accepted loop]
  have run: "add_heroic_games_to_lutris (\<lambda>s. s) ticking_env ?w =
      import_games (\<lambda>s. s) ticking_env 0
        (JObj [(ustr ''games'', JArr [quest_game, shelved_game, quest_twin])]) ?w"
    using add_heroic_games_import [OF dir lib table] by simp
  note finished = import_games_completed [OF table games loop]
  have apart: "ustr ''foo-bars-quest-1700000000.yml'' \<noteq> ustr ''foo-bars-quest-1700000002.yml''"
    by (simp add: ustr_def)
  have paths:
    "yaml_path_of 0 (config_slug_of (ustr ''foo-bars-quest'') (now (ticking_env 0))) =
       (ConfigDir 0, [ustr ''foo-bars-quest-1700000000.yml''])"
    "yaml_path_of 0 (config_slug_of (ustr ''foo-bars-quest'') (now (ticking_env 2))) =
       (ConfigDir 0, [ustr ''foo-bars-quest-1700000002.yml''])"
    unfolding slug0 slug2 by (simp_all add: yaml_path_of_def path_parts_def ustr_def)
  have later0: "\<forall>j t s x dr a. 0 < j \<and> j < length [quest_game, shelved_game, quest_twin] \<and>
      examine_game (\<lambda>s. s) ([quest_game, shelved_game, quest_twin] ! j) =
        Inr (Candidate t s x dr a) \<longrightarrow>
      yaml_path_of 0 (config_slug_of s (now (ticking_env j))) \<noteq>
        yaml_path_of 0 (config_slug_of (ustr ''foo-bars-quest'') (now (ticking_env 0)))"
  proof (intro allI impI)
    fix j t s x dr a
    assume h: "0 < j \<and> j < length [quest_game, shelved_game, quest_twin] \<and>
      examine_game (\<lambda>s. s) ([quest_game, shelved_game, quest_twin] ! j) =
        Inr (Candidate t s x dr a)"
    then have "j = 1 \<or> j = 2" by auto
    then show "yaml_path_of 0 (config_slug_of s (now (ticking_env j))) \<noteq>
        yaml_path_of 0 (config_slug_of (ustr ''foo-bars-quest'') (now (ticking_env 0)))"
    proof
      assume "j = 1"
      with h show ?thesis by (simp add: examine_shelved_game)
    next
      assume j: "j = 2"
      with h have "s = ustr ''foo-bars-quest''" by (simp add: examine_quest_twin)
      with j paths apart show ?thesis by simp
    qed
  qed
  have later2: "\<forall>j t s x dr a. 2 < j \<and> j < length [quest_game, shelved_game, quest_twin] \<and>
      examine_game (\<lambda>s. s) ([quest_game, shelved_game, quest_twin] ! j) =
        Inr (Candidate t s x dr a) \<longrightarrow>
      yaml_path_of 0 (config_slug_of s (now (ticking_env j))) \<noteq>
        yaml_path_of 0 (config_slug_of (ustr ''foo-bars-quest'') (now (ticking_env 2)))"
    by (auto simp: numeral_3_eq_3 [symmetric])
  have nofile: "get_heroic_game_config a (game_config_json ?w a) = Inr (hc, ws) \<Longrightarrow> hc = []"
    for a hc ws
    by (simp add: demo_world_def get_heroic_game_config_def)
  from fact later0 later2 have files:
    "dir_files (add_heroic_games_to_lutris (\<lambda>s. s) ticking_env ?w)
       (yaml_path_of 0 (config_slug_of (ustr ''foo-bars-quest'') (now (ticking_env 0)))) =
       Some (Dumped (lutris_config_of (JStr (ustr ''/games/Foo/foo.exe'')) []))"
    "dir_files (add_heroic_games_to_lutris (\<lambda>s. s) ticking_env ?w)
       (yaml_path_of 0 (config_slug_of (ustr ''foo-bars-quest'') (now (ticking_env 2)))) =
       Some (Dumped (lutris_config_of (JStr (ustr ''/twin/run.exe'')) []))"
    using nofile by blast+
  have table': "pga_db (add_heroic_games_to_lutris (\<lambda>s. s) ticking_env ?w) =
     DbTable
       [insert_params (JStr quest_title) (ustr ''foo-bars-quest'')
          (JStr (ustr ''/games/Foo/foo.exe'')) (JStr (ustr ''/games/Foo''))
          (ustr ''foo-bars-quest-1700000000''),
        insert_params (JStr (ustr ''FOO BARS QUEST'')) (ustr ''foo-bars-quest'')
          (JStr (ustr ''/twin/run.exe'')) (JStr (ustr ''/twin''))
          (ustr ''foo-bars-quest-1700000002'')]"
    using run finished by simp
  from files table' show ?thesis
    unfolding paths by (simp add: lutris_config_of_def dict_get_def)
qed

end
